theory Spec2Isabelle
  imports Complex_Main "HOL-Library.AList"
begin

section \<open>The player orchestrator of playkit-js\<close>

text \<open>
  A shallow embedding of the \<^verbatim>\<open>Player\<close> class (the 2641-line player source): the
  fields of the class are a record, every method is a function from the player state to
  the updated state, and a JavaScript exception is the left injection of the result.

  Naming: a private member \<^verbatim>\<open>_name\<close> of the class is written \<open>u_name\<close> (an Isabelle name
  cannot start with an underscore); public members keep their names.

  What the player calls on its collaborators (the engine, the managers, the middleware
  chain) is appended to the trace \<open>calls\<close>; what it dispatches on itself is appended to
  \<open>events\<close>. DOM handling and logging are left out. Continuations that the source hands
  to a promise, to a timer or to the middleware chain do not run inside the call that
  registers them; each is a function of its own here.
\<close>

subsection \<open>JavaScript numbers\<close>

text \<open>
  A number is NaN, an infinity or a finite value (a real here: the source only compares
  numbers and subtracts the constant 0.1).
\<close>

datatype number = NaN | NegInf | Fin real | PosInf

fun num_lt :: "number \<Rightarrow> number \<Rightarrow> bool" where
  "num_lt (Fin a) (Fin b) = (a < b)"
| "num_lt NegInf (Fin b) = True"
| "num_lt NegInf PosInf = True"
| "num_lt (Fin a) PosInf = True"
| "num_lt a b = False"

definition num_gt :: "number \<Rightarrow> number \<Rightarrow> bool" where
  "num_gt a b = num_lt b a"

definition num_le :: "number \<Rightarrow> number \<Rightarrow> bool" where
  "num_le a b = (a \<noteq> NaN \<and> b \<noteq> NaN \<and> (a = b \<or> num_lt a b))"

definition num_eq :: "number \<Rightarrow> number \<Rightarrow> bool" where
  \<comment> \<open>\<^verbatim>\<open>===\<close> on numbers: NaN equals nothing\<close>
  "num_eq a b = (a \<noteq> NaN \<and> a = b)"

fun num_minus :: "number \<Rightarrow> number \<Rightarrow> number" where
  "num_minus (Fin a) (Fin b) = Fin (a - b)"
| "num_minus NaN b = NaN"
| "num_minus a NaN = NaN"
| "num_minus PosInf PosInf = NaN"
| "num_minus NegInf NegInf = NaN"
| "num_minus PosInf b = PosInf"
| "num_minus NegInf b = NegInf"
| "num_minus (Fin a) PosInf = NegInf"
| "num_minus (Fin a) NegInf = PosInf"

definition AUTO :: string where "AUTO = ''auto''"
definition OFF :: string where "OFF = ''off''"
definition DURATION_OFFSET :: number where "DURATION_OFFSET = Fin (1 / 10)"

subsection \<open>Exceptions and results\<close>

datatype exn = TypeError

definition andThen :: "exn + 'a \<Rightarrow> ('a \<Rightarrow> exn + 'b) \<Rightarrow> exn + 'b" where
  "andThen r f = (case r of Inl e \<Rightarrow> Inl e | Inr x \<Rightarrow> f x)"

subsection \<open>Tracks\<close>

datatype track_kind = VideoTrack | AudioTrack | TextTrack

record track =
  kind :: track_kind
  index :: int
  active :: bool
  label :: string
  language :: string
  external :: bool

subsection \<open>Configuration\<close>

record media_source =
  url :: string
  mimetype :: string

datatype media_type = VOD | LIVE | OTHER_MEDIA

text \<open>
  An entry of \<^verbatim>\<open>playback.streamPriority\<close>; a field that is not a string is \<open>None\<close>
  (the source tests \<^verbatim>\<open>typeof priority.engine === 'string'\<close>).
\<close>

record priority =
  pr_engine :: "string option"
  pr_format :: "string option"

record playback_config =
  streamPriority :: "priority list"
  preferNative :: "(string \<times> bool) list"
  useNativeTextTrack :: bool
  textLanguage :: string
  audioLanguage :: string
  pb_muted :: "bool option"
  pb_volume :: "number option"
  playsinline :: "bool option"
  crossOrigin :: "string option"
  playbackRates :: "number list option"
  preload :: string
  autoplay :: bool
  allowMutedAutoPlay :: bool
  startTime :: "number option"
  loop :: bool
  playAdsWithMSE :: bool

text \<open>
  \<^verbatim>\<open>sources[format]\<close> is the entry of \<open>by_format\<close>; a missing and an empty array are
  both the empty list (the source treats them alike).
\<close>

record sources_config =
  by_format :: "(string \<times> media_source list) list"
  src_type :: "media_type option"
  dvr :: bool
  poster :: "string option"

type_synonym plugin_config = string

text \<open>
  The configuration object. A section that is \<^verbatim>\<open>undefined\<close> is \<open>None\<close>: \<^verbatim>\<open>destroy()\<close>
  replaces the whole object by \<^verbatim>\<open>{}\<close>, and reading a field of a missing section throws.
\<close>

record config =
  playback :: "playback_config option"
  sources :: "sources_config option"
  plugins :: "(string \<times> plugin_config) list option"
  drm :: "string option"

definition empty_config :: config where
  "empty_config = \<lparr>playback = None, sources = None, plugins = None, drm = None\<rparr>"

definition empty_sources :: sources_config where
  "empty_sources = \<lparr>by_format = [], src_type = None, dvr = False, poster = None\<rparr>"

definition empty_playback :: playback_config where
  "empty_playback = \<lparr>streamPriority = [], preferNative = [], useNativeTextTrack = False,
     textLanguage = [], audioLanguage = [], pb_muted = None, pb_volume = None,
     playsinline = None, crossOrigin = None, playbackRates = None, preload = [],
     autoplay = False, allowMutedAutoPlay = False, startTime = None, loop = False,
     playAdsWithMSE = False\<rparr>"

definition formatSources :: "sources_config \<Rightarrow> string \<Rightarrow> media_source list" where
  "formatSources srcs format = (case map_of (by_format srcs) format of None \<Rightarrow> [] | Some l \<Rightarrow> l)"

subsection \<open>Errors and events\<close>

datatype severity = RECOVERABLE | CRITICAL
datatype category = PLAYER | OTHER_CATEGORY
datatype code = NO_ENGINE_FOUND_TO_PLAY_THE_SOURCE | NO_SOURCE_PROVIDED | OTHER_CODE nat

record pkerror =
  err_severity :: severity
  err_category :: category
  err_code :: code

text \<open>The events the modelled methods dispatch or listen to.\<close>

datatype event =
    CHANGE_SOURCE_STARTED
  | CHANGE_SOURCE_ENDED
  | SOURCE_SELECTED "media_source list"
  | PLAYER_RESET
  | PLAYER_DESTROY
  | PLAYBACK_START
  | PLAYBACK_ENDED
  | FIRST_PLAYING
  | PLAYING
  | TRACKS_CHANGED "track list"
  | MEDIA_LOADED
  | TEXT_TRACK_CHANGED track
  | MUTE_CHANGE bool
  | ERROR pkerror

subsection \<open>Collaborators\<close>

text \<open>
  The engine instance, as far as the player reads and writes it. The values an engine
  reports (source, duration, live) are inputs of the model; the player writes the current
  time, the volume and the muted flag.
\<close>

record engine =
  eng_id :: string
  eng_src :: "string option"
  eng_duration :: number
  eng_currentTime :: number
  eng_volume :: number
  eng_muted :: bool
  eng_isLive :: bool

text \<open>An engine class registered with the engine provider (\<^verbatim>\<open>IEngineStatic\<close>).\<close>

record engine_class =
  id_static :: string
  canPlaySource :: "media_source \<Rightarrow> bool option \<Rightarrow> string option \<Rightarrow> bool"
  createEngine :: "media_source \<Rightarrow> engine"

text \<open>
  A loaded plugin. \<open>getMiddlewareImpl\<close> is \<open>None\<close> when the plugin has no such function,
  \<open>Some None\<close> when the function returns nothing, \<open>Some (Some m)\<close> for the middleware
  \<open>m\<close> (named by a string); likewise \<open>getUIComponents\<close>.
\<close>

record plugin =
  name :: string
  pl_config :: plugin_config
  getMiddlewareImpl :: "string option option"
  getUIComponents :: "string list option option"
  adsController :: bool

datatype engine_op =
    E_reset
  | E_destroy
  | E_restore media_source
  | E_play
  | E_pause
  | E_load "number option"
  | E_selectVideoTrack track
  | E_selectAudioTrack track
  | E_selectTextTrack track
  | E_hideTextTrack
  | E_set_playsinline bool
  | E_set_crossOrigin string

datatype action = Load | Play | Pause

datatype continuation = K_loadPlayer | K_play | K_playAfterAsyncMiddleware | K_pause

datatype collaborator =
    ExternalCaptionsHandler | PosterManager | PluginManager | StateManager
  | FullscreenController | ResizeWatcher | TextDisplay | EngineProvider | Capabilities

datatype call =
    EngineCall string engine_op
  | CreateEngine string media_source
  | CanPlaySource string media_source
  | Collab collaborator string
  | CaptionsSelectTextTrack track
  | PluginLoad string
  | PluginUpdateConfig string
  | MiddlewareUse string
  | MiddlewareRun action "string list" continuation
  | ReadyThen continuation

subsection \<open>The environment\<close>

text \<open>
  What the player imports and this source does not define: the registered engines
  (\<^verbatim>\<open>EngineProvider.getEngines()\<close>), \<^verbatim>\<open>Utils.Object.mergeDeep\<close>, the plugin
  manager's loader (it throws, loads nothing, or loads a plugin), \<^verbatim>\<open>Track.langComparer\<close>,
  \<^verbatim>\<open>Locale.language\<close>, \<^verbatim>\<open>Utils.Number.isNumber\<close> and \<^verbatim>\<open>isFloat\<close>, the default
  configuration. They are parameters: every theorem holds for all of them.
\<close>

record env =
  getEngines :: "engine_class list"
  mergeDeep :: "config \<Rightarrow> config \<Rightarrow> config"
  pluginLoad :: "string \<Rightarrow> plugin_config \<Rightarrow> pkerror + plugin option"
  langComparer :: "string \<Rightarrow> string \<Rightarrow> bool"
  locale_language :: string
  isNumber :: "number \<Rightarrow> bool"
  isFloat :: "number \<Rightarrow> bool"
  DefaultConfig :: config

subsection \<open>The player state\<close>

datatype promise = Pending | Fulfilled | Rejected

record attributes_state =
  st_muted :: "bool option"
  st_volume :: "number option"
  st_rate :: "number option"
  st_audioLanguage :: string
  st_textLanguage :: string

datatype once_callback = Cb_load | Cb_play

text \<open>
  \<open>u_readyPromise\<close> holds the state of the promise the executor of
  \<^verbatim>\<open>_createReadyPromise\<close> settles, \<open>None\<close> for \<^verbatim>\<open>null\<close>. The event manager's bindings are
  three flags and a list: \<open>ready_once\<close> (the \<^verbatim>\<open>listenOnce\<close> of TRACKS_CHANGED is still
  registered), \<open>ready_error\<close> (the ERROR listener of the ready promise is registered),
  \<open>attached\<close> (the listener table of \<^verbatim>\<open>_attachMedia\<close> is registered) and
  \<open>on_source_selected\<close> (the pending \<^verbatim>\<open>listenOnce\<close> callbacks of SOURCE_SELECTED).
\<close>

record player =
  u_config :: config
  u_engine :: "engine option"
  u_tracks :: "track list"
  u_readyPromise :: "promise option"
  u_firstPlay :: bool
  u_firstPlaying :: bool
  u_playbackStart :: bool
  u_playbackEnded :: bool
  u_pendingSelectedVideoTrack :: "track option"
  u_playbackRates :: "number list option"
  u_engineType :: string
  u_streamType :: string
  u_playbackAttributesState :: attributes_state
  u_loadingMedia :: bool
  u_loading :: bool
  u_reset :: bool
  u_destroyed :: bool
  u_fallbackToMutedAutoPlay :: bool
  u_adsController :: bool
  u_uiComponents :: "string list"
  u_isOnLiveEdge :: bool
  u_shouldLoadAfterAttach :: bool
  u_plugins :: "(string \<times> plugin) list"
  u_middlewares :: "string list"
  ready_once :: bool
  ready_error :: bool
  attached :: bool
  on_source_selected :: "once_callback list"
  events :: "event list"
  calls :: "call list"

definition record_call :: "call \<Rightarrow> player \<Rightarrow> player" where
  "record_call c s = s\<lparr>calls := calls s @ [c]\<rparr>"

definition record_event :: "event \<Rightarrow> player \<Rightarrow> player" where
  "record_event ev s = s\<lparr>events := events s @ [ev]\<rparr>"

definition engine_call :: "engine_op \<Rightarrow> player \<Rightarrow> player" where
  \<comment> \<open>a method call on the bound engine (the caller has tested \<^verbatim>\<open>this._engine\<close>)\<close>
  "engine_call op s = (case u_engine s of None \<Rightarrow> s | Some e \<Rightarrow> record_call (EngineCall (eng_id e) op) s)"

subsection \<open>Attribute setters\<close>

definition isLive :: "player \<Rightarrow> exn + bool" where
  "isLive s = (case sources (u_config s) of
       None \<Rightarrow> Inl TypeError
     | Some srcs \<Rightarrow> Inr (src_type srcs \<noteq> Some VOD \<and>
         (src_type srcs = Some LIVE \<or> (case u_engine s of None \<Rightarrow> False | Some e \<Rightarrow> eng_isLive e))))"

definition set_currentTime :: "env \<Rightarrow> number \<Rightarrow> player \<Rightarrow> exn + player" where
  "set_currentTime env to s = (case u_engine s of
       None \<Rightarrow> Inr s
     | Some e \<Rightarrow>
         if isNumber env to then
           (let boundedTo = (if num_lt to (Fin 0) then Fin 0 else to) in
            andThen (isLive s) (\<lambda>live.
              let safeDuration = (if live then eng_duration e else num_minus (eng_duration e) DURATION_OFFSET);
                  boundedTo' = (if num_gt boundedTo safeDuration then safeDuration else boundedTo)
              in Inr (s\<lparr>u_engine := Some (e\<lparr>eng_currentTime := boundedTo'\<rparr>)\<rparr>)))
         else Inr s)"

definition set_volume :: "env \<Rightarrow> number \<Rightarrow> player \<Rightarrow> player" where
  "set_volume env vol s = (case u_engine s of
       None \<Rightarrow> s
     | Some e \<Rightarrow>
         if isFloat env vol \<or> num_eq vol (Fin 0) \<or> num_eq vol (Fin 1) then
           (let boundedVol = (if num_lt vol (Fin 0) then Fin 0 else vol);
                boundedVol' = (if num_gt boundedVol (Fin 1) then Fin 1 else boundedVol)
            in s\<lparr>u_engine := Some (e\<lparr>eng_volume := boundedVol'\<rparr>)\<rparr>)
         else s)"

subsection \<open>The readiness gate\<close>

text \<open>
  \<^verbatim>\<open>_readyPromise = new Promise(executor).catch(() => {})\<close>: the field holds the promise that
  \<^verbatim>\<open>catch\<close> returns. It is pending while the executor's promise is, and fulfilled once the
  executor's promise is settled either way, since the handler of \<^verbatim>\<open>catch\<close> returns normally.
  \<open>u_readyPromise\<close> stores the state of the executor's promise; \<open>catch_silenced\<close> gives the
  state of the promise a caller of \<^verbatim>\<open>ready()\<close> holds.
\<close>

definition resolve :: "promise \<Rightarrow> promise" where
  "resolve p = (if p = Pending then Fulfilled else p)"

definition reject :: "promise \<Rightarrow> promise" where
  "reject p = (if p = Pending then Rejected else p)"

definition catch_silenced :: "promise \<Rightarrow> promise" where
  "catch_silenced p = (case p of Pending \<Rightarrow> Pending | Fulfilled \<Rightarrow> Fulfilled | Rejected \<Rightarrow> Fulfilled)"

definition ready :: "player \<Rightarrow> promise" where
  "ready s = (case u_readyPromise s of Some p \<Rightarrow> catch_silenced p | None \<Rightarrow> Fulfilled)"

definition u_createReadyPromise :: "player \<Rightarrow> player" where
  "u_createReadyPromise s = s\<lparr>u_readyPromise := Some Pending, ready_once := True, ready_error := True\<rparr>"

definition removeAll_listeners :: "player \<Rightarrow> player" where
  \<comment> \<open>\<^verbatim>\<open>_eventManager.removeAll()\<close> and \<^verbatim>\<open>_eventManager.destroy()\<close>: every binding goes\<close>
  "removeAll_listeners s = s\<lparr>ready_once := False, ready_error := False, attached := False, on_source_selected := []\<rparr>"

subsection \<open>Loading\<close>

definition src :: "player \<Rightarrow> string option" where
  "src s = (case u_engine s of None \<Rightarrow> None | Some e \<Rightarrow> eng_src e)"

definition config :: "player \<Rightarrow> config" where
  \<comment> \<open>the getter returns a copy of \<^verbatim>\<open>_config\<close>: the same values\<close>
  "config s = u_config s"

text \<open>
  \<^verbatim>\<open>_load()\<close> up to the call of \<^verbatim>\<open>engine.load(startTime)\<close>; what follows when the
  engine's promise settles is \<open>u_load_then\<close> and \<open>u_load_catch\<close> below.
\<close>

definition u_load :: "player \<Rightarrow> exn + player" where
  "u_load s = (case u_engine s of
       None \<Rightarrow> Inr s
     | Some e \<Rightarrow>
         if eng_src e = None \<and> \<not> u_loading s then
           (case playback (u_config s) of
              None \<Rightarrow> Inl TypeError
            | Some pb \<Rightarrow> Inr (engine_call (E_load (startTime pb)) (s\<lparr>u_loading := True\<rparr>)))
         else Inr s)"

text \<open>\<^verbatim>\<open>_play()\<close> up to \<^verbatim>\<open>this.ready().then(...)\<close>.\<close>

definition u_play :: "player \<Rightarrow> exn + player" where
  "u_play s =
     andThen (if u_shouldLoadAfterAttach s
              then andThen (u_load s) (\<lambda>s1. Inr (s1\<lparr>u_shouldLoadAfterAttach := False\<rparr>))
              else Inr s)
       (\<lambda>s2. Inr (record_call (ReadyThen K_play) s2))"

definition u_pause :: "player \<Rightarrow> player" where
  "u_pause s = engine_call E_pause s"

subsection \<open>Dispatching events\<close>

text \<open>
  \<^verbatim>\<open>this.dispatchEvent(new FakeEvent(X))\<close> records \<open>X\<close> and runs the player's own
  listeners of \<open>X\<close>. The bodies of the methods below use the function of the event they
  dispatch; \<open>dispatchEvent\<close>, after the listeners it needs, is the case distinction over
  them. An exception of a listener reaches the dispatcher.
\<close>

definition dispatch_TRACKS_CHANGED :: "track list \<Rightarrow> player \<Rightarrow> player" where
  "dispatch_TRACKS_CHANGED ts s =
     (let s1 = record_event (TRACKS_CHANGED ts) s in
      if ready_once s1 then
        (record_event MEDIA_LOADED (s1\<lparr>ready_once := False\<rparr>))
          \<lparr>u_readyPromise := map_option resolve (u_readyPromise s1)\<rparr>
      else s1)"

definition dispatch_ERROR :: "pkerror \<Rightarrow> player \<Rightarrow> player" where
  "dispatch_ERROR err s =
     (let s1 = record_event (ERROR err) s in
      if ready_error s1 \<and> err_severity err = CRITICAL
      then s1\<lparr>u_readyPromise := map_option reject (u_readyPromise s1)\<rparr>
      else s1)"

definition muted :: "player \<Rightarrow> bool option" where
  "muted s = (case u_engine s of None \<Rightarrow> None | Some e \<Rightarrow> Some (eng_muted e))"

definition dispatch_MUTE_CHANGE :: "bool \<Rightarrow> player \<Rightarrow> player" where
  "dispatch_MUTE_CHANGE m s =
     (let s1 = record_event (MUTE_CHANGE m) s in
      if attached s1
      then s1\<lparr>u_playbackAttributesState := (u_playbackAttributesState s1)\<lparr>st_muted := muted s1\<rparr>\<rparr>
      else s1)"

fun run_once :: "once_callback list \<Rightarrow> player \<Rightarrow> exn + player" where
  "run_once [] s = Inr s"
| "run_once (cb # cbs) s =
     andThen (case cb of Cb_load \<Rightarrow> u_load s | Cb_play \<Rightarrow> u_play s) (run_once cbs)"

definition dispatch_SOURCE_SELECTED :: "media_source list \<Rightarrow> player \<Rightarrow> exn + player" where
  "dispatch_SOURCE_SELECTED selectedSource s =
     (let s1 = record_event (SOURCE_SELECTED selectedSource) s in
      run_once (on_source_selected s1) (s1\<lparr>on_source_selected := []\<rparr>))"

subsection \<open>Pause, reset, destroy\<close>

definition pause :: "player \<Rightarrow> player" where
  "pause s = (case u_engine s of
       None \<Rightarrow> s
     | Some e \<Rightarrow> record_call (MiddlewareRun Pause (u_middlewares s) K_pause) s)"

definition u_updateTextDisplay :: "player \<Rightarrow> exn + player" where
  "u_updateTextDisplay s = (case playback (u_config s) of
       None \<Rightarrow> Inl TypeError
     | Some pb \<Rightarrow> Inr (if \<not> useNativeTextTrack pb then record_call (Collab TextDisplay ''processCues'') s else s))"

definition u_resetTextDisplay :: "player \<Rightarrow> exn + player" where
  "u_resetTextDisplay s = u_updateTextDisplay s"

definition u_resetStateFlags :: "player \<Rightarrow> player" where
  "u_resetStateFlags s = s\<lparr>u_loading := False, u_firstPlay := True, u_loadingMedia := False,
     u_playbackStart := False, u_playbackEnded := False, u_firstPlaying := False\<rparr>"

definition reset_services :: "player \<Rightarrow> player" where
  \<comment> \<open>the statements of \<^verbatim>\<open>reset()\<close> from \<^verbatim>\<open>this.pause()\<close> to \<^verbatim>\<open>this._config.sources = {}\<close>:
      they have run when \<^verbatim>\<open>_updateTextDisplay\<close> throws, and the player stays as they leave it\<close>
  "reset_services s =
     (let s1 = pause s;
          s2 = record_call (Collab ExternalCaptionsHandler ''reset'') s1;
          s3 = record_call (Collab PosterManager ''reset'') s2;
          s4 = record_call (Collab PluginManager ''reset'') s3;
          s5 = record_call (Collab StateManager ''reset'') s4
      in s5\<lparr>u_config := (u_config s5)\<lparr>sources := Some empty_sources\<rparr>\<rparr>)"

definition reset :: "player \<Rightarrow> exn + player" where
  "reset s =
     (if u_reset s then Inr s
      else
        (let s6 = reset_services s
         in andThen (u_updateTextDisplay s6) (\<lambda>s7.
              (let s8 = u_resetStateFlags (s7\<lparr>u_tracks := []\<rparr>);
                   s9 = s8\<lparr>u_engineType := [], u_streamType := [], u_pendingSelectedVideoTrack := None\<rparr>;
                   s10 = engine_call E_reset s9;
                   s11 = record_event PLAYER_RESET (s10\<lparr>u_reset := True\<rparr>);
                   s12 = removeAll_listeners s11;
                   s13 = record_call (Collab ResizeWatcher ''init'') s12;
                   s14 = u_createReadyPromise s13
               in Inr (s14\<lparr>u_isOnLiveEdge := False, u_shouldLoadAfterAttach := False\<rparr>)))))"

definition empty_attributes :: attributes_state where
  "empty_attributes = \<lparr>st_muted = None, st_volume = None, st_rate = None,
     st_audioLanguage = [], st_textLanguage = []\<rparr>"

text \<open>
  \<^verbatim>\<open>destroy()\<close>. The plugin manager forgets its plugins when it is destroyed (its
  contract: load, get, update, reset and destroy per named plugin).
\<close>

definition destroy :: "player \<Rightarrow> player" where
  "destroy s =
     (if u_destroyed s then s
      else
        (let s1 = record_call (Collab ExternalCaptionsHandler ''destroy'') s;
             s2 = record_call (Collab PosterManager ''destroy'') s1;
             s3 = (record_call (Collab PluginManager ''destroy'') s2)\<lparr>u_plugins := []\<rparr>;
             s4 = record_call (Collab StateManager ''destroy'') s3;
             s5 = record_call (Collab FullscreenController ''destroy'') s4;
             s6 = s5\<lparr>u_config := empty_config, u_tracks := [], u_engineType := [], u_streamType := [],
                     u_readyPromise := None, u_pendingSelectedVideoTrack := None\<rparr>;
             s7 = (u_resetStateFlags s6)\<lparr>u_playbackAttributesState := empty_attributes\<rparr>;
             s8 = engine_call E_destroy s7;
             s9 = record_call (Collab ResizeWatcher ''destroy'') s8;
             s10 = record_event PLAYER_DESTROY (s9\<lparr>u_destroyed := True\<rparr>)
         in removeAll_listeners s10))"

subsection \<open>Load and play\<close>

definition u_prepareVideoElement :: "player \<Rightarrow> player" where
  "u_prepareVideoElement s = record_call (Collab EngineProvider ''prepareVideoElement'') s"

definition load :: "player \<Rightarrow> player" where
  "load s = (if src s = None then record_call (MiddlewareRun Load (u_middlewares s) K_loadPlayer) s else s)"

definition loadPlayer :: "player \<Rightarrow> exn + player" where
  \<comment> \<open>the continuation \<^verbatim>\<open>load()\<close> hands to the middleware chain\<close>
  "loadPlayer s = (case u_engine s of
       Some e \<Rightarrow> u_load s
     | None \<Rightarrow> Inr (s\<lparr>on_source_selected := on_source_selected s @ [Cb_load]\<rparr>))"

definition u_playAfterAsyncMiddleware :: "player \<Rightarrow> exn + player" where
  "u_playAfterAsyncMiddleware s = (case u_engine s of
       Some e \<Rightarrow> u_play s
     | None \<Rightarrow> Inr (s\<lparr>on_source_selected := on_source_selected s @ [Cb_play]\<rparr>))"

definition no_source_provided :: pkerror where
  "no_source_provided = \<lparr>err_severity = CRITICAL, err_category = PLAYER, err_code = NO_SOURCE_PROVIDED\<rparr>"

definition play :: "player \<Rightarrow> player" where
  "play s =
     (let s1 = (if \<not> u_playbackStart s then
                  (let a = record_event PLAYBACK_START (s\<lparr>u_playbackStart := True\<rparr>);
                       b = (if src a = None then u_prepareVideoElement a else a)
                   in load b)
                else s)
      in case u_engine s1 of
           Some e \<Rightarrow> record_call (MiddlewareRun Play (u_middlewares s1) K_play) s1
         | None \<Rightarrow>
             if u_loadingMedia s1
             then record_call (MiddlewareRun Play (u_middlewares s1) K_playAfterAsyncMiddleware) s1
             else dispatch_ERROR no_source_provided s1)"

subsection \<open>Tracks and their selection\<close>

definition u_getTracksByType :: "track_kind \<Rightarrow> player \<Rightarrow> track list" where
  "u_getTracksByType k s = filter (\<lambda>t. kind t = k) (u_tracks s)"

definition u_getTextTracks :: "player \<Rightarrow> track list" where
  "u_getTextTracks s = u_getTracksByType TextTrack s"

definition u_getVideoTracks :: "player \<Rightarrow> track list" where
  "u_getVideoTracks s = u_getTracksByType VideoTrack s"

definition u_getAudioTracks :: "player \<Rightarrow> track list" where
  "u_getAudioTracks s = u_getTracksByType AudioTrack s"

text \<open>
  The tracks are objects that the source changes in place; \<open>update_first P f\<close> changes
  the object that \<^verbatim>\<open>find\<close> returns, inside the list that holds it.
\<close>

fun update_first :: "('a \<Rightarrow> bool) \<Rightarrow> ('a \<Rightarrow> 'a) \<Rightarrow> 'a list \<Rightarrow> 'a list" where
  "update_first P f [] = []"
| "update_first P f (x # xs) = (if P x then f x # xs else x # update_first P f xs)"

definition hideTextTrack :: "player \<Rightarrow> exn + player" where
  "hideTextTrack s = (case u_engine s of
       None \<Rightarrow> Inr s
     | Some e \<Rightarrow>
         andThen (u_resetTextDisplay (engine_call E_hideTextTrack s)) (\<lambda>s1.
           (let ts = map (\<lambda>t. if kind t = TextTrack then t\<lparr>active := False\<rparr> else t) (u_tracks s1);
                isOff = (\<lambda>t. kind t = TextTrack \<and> language t = OFF)
            in case find isOff ts of
                 None \<Rightarrow> Inr (s1\<lparr>u_tracks := ts\<rparr>)
               | Some t \<Rightarrow>
                   Inr (record_event (TEXT_TRACK_CHANGED (t\<lparr>active := True\<rparr>))
                          (s1\<lparr>u_tracks := update_first isOff (\<lambda>t. t\<lparr>active := True\<rparr>) ts\<rparr>)))))"

definition selectTrack :: "track \<Rightarrow> player \<Rightarrow> exn + player" where
  "selectTrack t s = (case u_engine s of
       None \<Rightarrow> Inr s
     | Some e \<Rightarrow>
         (case kind t of
            VideoTrack \<Rightarrow>
              Inr (if u_playbackEnded s then s\<lparr>u_pendingSelectedVideoTrack := Some t\<rparr>
                   else engine_call (E_selectVideoTrack t) s)
          | AudioTrack \<Rightarrow> Inr (engine_call (E_selectAudioTrack t) s)
          | TextTrack \<Rightarrow>
              andThen (u_resetTextDisplay s) (\<lambda>s1.
                if language t = OFF then
                  andThen (hideTextTrack s1) (\<lambda>s2.
                    Inr ((record_call (Collab ExternalCaptionsHandler ''hideTextTrack'') s2)
                      \<lparr>u_playbackAttributesState := (u_playbackAttributesState s2)\<lparr>st_textLanguage := OFF\<rparr>\<rparr>))
                else
                  (case playback (u_config s1) of
                     None \<Rightarrow> Inl TypeError
                   | Some pb \<Rightarrow>
                       if external t \<and> \<not> useNativeTextTrack pb
                       then Inr (record_call (CaptionsSelectTextTrack t) (engine_call E_hideTextTrack s1))
                       else Inr (engine_call (E_selectTextTrack t)
                                   (record_call (Collab ExternalCaptionsHandler ''hideTextTrack'') s1))))))"

definition u_markActiveTrack :: "track \<Rightarrow> player \<Rightarrow> player" where
  "u_markActiveTrack t s =
     s\<lparr>u_tracks := map (\<lambda>x. if kind x = kind t then x\<lparr>active := (index t = index x)\<rparr> else x) (u_tracks s)\<rparr>"

definition u_addTextTrackOffOption :: "player \<Rightarrow> player" where
  "u_addTextTrackOffOption s =
     (let textTracks = u_getTextTracks s in
      if textTracks \<noteq> [] then
        s\<lparr>u_tracks := u_tracks s @ [\<lparr>kind = TextTrack, index = int (length textTracks), active = False,
                                     label = ''Off'', language = OFF, external = False\<rparr>]\<rparr>
      else s)"

definition u_getLanguage :: "env \<Rightarrow> string \<Rightarrow> track option \<Rightarrow> player \<Rightarrow> string" where
  "u_getLanguage env configuredLanguage defaultTrack s =
     (if configuredLanguage = AUTO then
        (let tracks = u_getTextTracks s in
         case find (\<lambda>t. langComparer env (locale_language env) (language t)) tracks of
           Some localeTrack \<Rightarrow> language localeTrack
         | None \<Rightarrow>
             (case defaultTrack of
                Some d \<Rightarrow>
                  if language d \<noteq> OFF then language d
                  else (case tracks of [] \<Rightarrow> configuredLanguage | t # _ \<Rightarrow> language t)
              | None \<Rightarrow> (case tracks of [] \<Rightarrow> configuredLanguage | t # _ \<Rightarrow> language t)))
      else configuredLanguage)"

definition u_setDefaultTrack :: "env \<Rightarrow> track list \<Rightarrow> string \<Rightarrow> track option \<Rightarrow> player \<Rightarrow> exn + player" where
  "u_setDefaultTrack env tracks lang defaultTrack s =
     (case find (\<lambda>t. langComparer env lang (language t)) tracks of
        Some t \<Rightarrow> andThen (selectTrack t s) (\<lambda>s1. Inr (u_markActiveTrack t s1))
      | None \<Rightarrow>
          (case defaultTrack of
             Some d \<Rightarrow> if \<not> active d then selectTrack d s else Inr s
           | None \<Rightarrow> Inr s))"

text \<open>
  The language \<^verbatim>\<open>_setDefaultTracks\<close> resolves for the text tracks:
  \<^verbatim>\<open>_playbackAttributesState.textLanguage || _getLanguage(playbackConfig.textLanguage, activeTracks.text)\<close>.
\<close>

definition currentOrConfiguredTextLang :: "env \<Rightarrow> player \<Rightarrow> exn + string" where
  "currentOrConfiguredTextLang env s =
     (if st_textLanguage (u_playbackAttributesState s) \<noteq> [] then Inr (st_textLanguage (u_playbackAttributesState s))
      else (case playback (config s) of
              None \<Rightarrow> Inl TypeError
            | Some pb \<Rightarrow> Inr (u_getLanguage env (textLanguage pb) (find active (u_getTextTracks s)) s)))"

definition currentOrConfiguredAudioLang :: "player \<Rightarrow> exn + string" where
  "currentOrConfiguredAudioLang s =
     (if st_audioLanguage (u_playbackAttributesState s) \<noteq> [] then Inr (st_audioLanguage (u_playbackAttributesState s))
      else (case playback (config s) of
              None \<Rightarrow> Inl TypeError
            | Some pb \<Rightarrow> Inr (audioLanguage pb)))"

definition u_setDefaultTracks :: "env \<Rightarrow> player \<Rightarrow> exn + player" where
  "u_setDefaultTracks env s =
     (let activeAudio = find active (u_getAudioTracks s);
          offTextTrack = find (\<lambda>t. langComparer env OFF (language t)) (u_getTextTracks s)
      in andThen (currentOrConfiguredTextLang env s) (\<lambda>textLang.
         andThen (currentOrConfiguredAudioLang s) (\<lambda>audioLang.
         andThen (u_setDefaultTrack env (u_getTextTracks s) textLang offTextTrack s) (\<lambda>s1.
           u_setDefaultTrack env (u_getAudioTracks s1) audioLang activeAudio s1))))"

subsection \<open>Listeners of the engine's events\<close>

definition u_onPlaying :: "player \<Rightarrow> player" where
  "u_onPlaying s =
     (let s1 = (if \<not> u_firstPlaying s then record_event FIRST_PLAYING (s\<lparr>u_firstPlaying := True\<rparr>) else s)
      in case u_engine s1 of
           None \<Rightarrow> s1
         | Some e \<Rightarrow>
             (case u_pendingSelectedVideoTrack s1 of
                None \<Rightarrow> s1
              | Some t \<Rightarrow> (engine_call (E_selectVideoTrack t) s1)\<lparr>u_pendingSelectedVideoTrack := None\<rparr>))"

definition u_onPlaybackEnded :: "env \<Rightarrow> player \<Rightarrow> exn + player" where
  "u_onPlaybackEnded env s = (case playback (config s) of
       None \<Rightarrow> Inl TypeError
     | Some pb \<Rightarrow>
         if loop pb then andThen (set_currentTime env (Fin 0) s) (\<lambda>s1. Inr (play s1))
         else Inr (s\<lparr>u_playbackEnded := True\<rparr>))"

definition dispatchEvent :: "env \<Rightarrow> event \<Rightarrow> player \<Rightarrow> exn + player" where
  "dispatchEvent env ev s = (case ev of
       TRACKS_CHANGED ts \<Rightarrow> Inr (dispatch_TRACKS_CHANGED ts s)
     | ERROR err \<Rightarrow> Inr (dispatch_ERROR err s)
     | MUTE_CHANGE m \<Rightarrow> Inr (dispatch_MUTE_CHANGE m s)
     | SOURCE_SELECTED selectedSource \<Rightarrow> dispatch_SOURCE_SELECTED selectedSource s
     | PLAYING \<Rightarrow>
         (let s1 = record_event PLAYING s in Inr (if attached s1 then u_onPlaying s1 else s1))
     | PLAYBACK_ENDED \<Rightarrow>
         (let s1 = record_event PLAYBACK_ENDED s in
          if attached s1 then u_onPlaybackEnded env s1 else Inr s1)
     | _ \<Rightarrow> Inr (record_event ev s))"

subsection \<open>Plugins and the middleware chain\<close>

text \<open>
  Modelled from the spec: the class \<^verbatim>\<open>PlaybackMiddleware\<close> is not part of this source.
  The chain is an ordered sequence of interceptors; \<^verbatim>\<open>use\<close> adds one at its end, and an
  action threads its continuation through the chain in that order (\<open>MiddlewareRun\<close>
  records the chain as it stands when \<open>load\<close>, \<open>play\<close> or \<open>pause\<close> runs it).
\<close>

definition use :: "string \<Rightarrow> player \<Rightarrow> player" where
  "use m s = (record_call (MiddlewareUse m) s)\<lparr>u_middlewares := u_middlewares s @ [m]\<rparr>"

definition set_config_plugin :: "string \<Rightarrow> plugin_config \<Rightarrow> player \<Rightarrow> exn + player" where
  \<comment> \<open>\<^verbatim>\<open>this._config.plugins[name] = c\<close>\<close>
  "set_config_plugin n c s = (case plugins (u_config s) of
       None \<Rightarrow> Inl TypeError
     | Some ps \<Rightarrow> Inr (s\<lparr>u_config := (u_config s)\<lparr>plugins := Some (AList.update n c ps)\<rparr>\<rparr>))"

definition delete_config_plugin :: "string \<Rightarrow> player \<Rightarrow> exn + player" where
  \<comment> \<open>\<^verbatim>\<open>delete this._config.plugins[name]\<close>\<close>
  "delete_config_plugin n s = (case plugins (u_config s) of
       None \<Rightarrow> Inl TypeError
     | Some ps \<Rightarrow> Inr (s\<lparr>u_config := (u_config s)\<lparr>plugins := Some (AList.delete n ps)\<rparr>\<rparr>))"

text \<open>
  \<^verbatim>\<open>_pluginManager.load(name, this, config)\<close> inside its \<^verbatim>\<open>try\<close>: a thrown error is
  dispatched as an ERROR event, a loaded plugin enters the registry.
\<close>

definition try_load :: "env \<Rightarrow> string \<Rightarrow> plugin_config \<Rightarrow> player \<Rightarrow> player" where
  "try_load env n c s =
     (let s1 = record_call (PluginLoad n) s in
      case pluginLoad env n c of
        Inl err \<Rightarrow> dispatch_ERROR err s1
      | Inr None \<Rightarrow> s1
      | Inr (Some p) \<Rightarrow> s1\<lparr>u_plugins := AList.update n p (u_plugins s1)\<rparr>)"

text \<open>
  One round of the \<^verbatim>\<open>forEach\<close> of \<^verbatim>\<open>_configureOrLoadPlugins\<close>, on the local arrays
  \<^verbatim>\<open>middlewares\<close> and \<^verbatim>\<open>uiComponents\<close> and the player. A plugin that is updated keeps the
  configuration it is given.
\<close>

definition plugin_step ::
  "env \<Rightarrow> string \<times> plugin_config \<Rightarrow> string list \<times> string list \<times> player
     \<Rightarrow> exn + (string list \<times> string list \<times> player)" where
  "plugin_step env nc acc =
     (case nc of (n, c) \<Rightarrow> case acc of (middlewares, uiComponents, s) \<Rightarrow>
        (case map_of (u_plugins s) n of
           Some p \<Rightarrow>
             andThen (set_config_plugin n c
                        ((record_call (PluginUpdateConfig n) s)
                           \<lparr>u_plugins := AList.update n (p\<lparr>pl_config := c\<rparr>) (u_plugins s)\<rparr>))
               (\<lambda>s1. Inr (middlewares, uiComponents, s1))
         | None \<Rightarrow>
             if u_engine s = None then
               (let s1 = try_load env n c s in
                case map_of (u_plugins s1) n of
                  None \<Rightarrow> Inr (middlewares, uiComponents, s1)
                | Some p \<Rightarrow>
                    andThen (set_config_plugin n (pl_config p) s1) (\<lambda>s2.
                      (let middlewares' =
                             (case getMiddlewareImpl p of
                                Some (Some middleware) \<Rightarrow>
                                  if name p = ''bumper'' then middlewares @ [middleware]
                                  else middleware # middlewares
                              | _ \<Rightarrow> middlewares);
                           uiComponents' =
                             (case getUIComponents p of
                                Some (Some cs) \<Rightarrow> uiComponents @ cs
                              | _ \<Rightarrow> uiComponents)
                       in Inr (middlewares', uiComponents', s2))))
             else andThen (delete_config_plugin n s) (\<lambda>s1. Inr (middlewares, uiComponents, s1))))"

fun plugins_forEach ::
  "env \<Rightarrow> (string \<times> plugin_config) list \<Rightarrow> string list \<times> string list \<times> player
     \<Rightarrow> exn + (string list \<times> string list \<times> player)" where
  "plugins_forEach env [] acc = Inr acc"
| "plugins_forEach env (nc # rest) acc = andThen (plugin_step env nc acc) (plugins_forEach env rest)"

text \<open>
  \<^verbatim>\<open>_configureOrLoadPlugins(plugins = {})\<close>: an argument that is \<^verbatim>\<open>undefined\<close> is the empty
  object; the keys come in the order of \<^verbatim>\<open>Object.keys\<close>.
\<close>

definition u_configureOrLoadPlugins :: "env \<Rightarrow> (string \<times> plugin_config) list option \<Rightarrow> player \<Rightarrow> exn + player" where
  "u_configureOrLoadPlugins env pluginsArg s =
     (let ps = (case pluginsArg of None \<Rightarrow> [] | Some l \<Rightarrow> l) in
      andThen (plugins_forEach env ps ([], [], s)) (\<lambda>(middlewares, uiComponents, s1).
        Inr (fold use middlewares (s1\<lparr>u_uiComponents := uiComponents\<rparr>))))"

definition u_maybeCreateAdsController :: "player \<Rightarrow> player" where
  \<comment> \<open>the controller provider offers the ads controllers of the loaded plugins\<close>
  "u_maybeCreateAdsController s =
     (if \<not> u_adsController s \<and> list_ex (\<lambda>(n, p). adsController p) (u_plugins s)
      then s\<lparr>u_adsController := True\<rparr> else s)"

subsection \<open>Engine selection\<close>

definition lower_char :: "char \<Rightarrow> char" where
  "lower_char c =
     (case map_of (zip ''ABCDEFGHIJKLMNOPQRSTUVWXYZ'' ''abcdefghijklmnopqrstuvwxyz'') c of
        Some l \<Rightarrow> l
      | None \<Rightarrow> c)"

definition toLowerCase :: "string \<Rightarrow> string" where
  \<comment> \<open>on ASCII letters\<close>
  "toLowerCase str = map lower_char str"

definition engineId_of :: "priority \<Rightarrow> string" where
  "engineId_of p = (case pr_engine p of Some e \<Rightarrow> toLowerCase e | None \<Rightarrow> [])"

definition format_of :: "priority \<Rightarrow> string" where
  "format_of p = (case pr_format p of Some f \<Rightarrow> toLowerCase f | None \<Rightarrow> [])"

text \<open>
  \<^verbatim>\<open>_createEngine\<close>: the decorator that may wrap the new engine forwards to it, so the
  bound instance is the engine that the class creates.
\<close>

definition u_createEngine :: "engine_class \<Rightarrow> media_source \<Rightarrow> player \<Rightarrow> player" where
  "u_createEngine E source s =
     (record_call (CreateEngine (id_static E) source) s)\<lparr>u_engine := Some (createEngine E source)\<rparr>"

definition u_loadEngine :: "engine_class \<Rightarrow> media_source \<Rightarrow> player \<Rightarrow> player" where
  "u_loadEngine E source s = (case u_engine s of
       None \<Rightarrow> u_createEngine E source s
     | Some e \<Rightarrow>
         if eng_id e = id_static E then engine_call (E_restore source) s
         else u_createEngine E source (engine_call E_destroy s))"

text \<open>
  The loop of \<^verbatim>\<open>_selectEngineByPriority\<close> over \<^verbatim>\<open>streamPriority\<close>, with the constants
  \<^verbatim>\<open>preferNative\<close> (inside \<open>pb\<close>), \<^verbatim>\<open>sources\<close> and \<^verbatim>\<open>this._config.drm\<close> it reads. Every
  question \<^verbatim>\<open>Engine.canPlaySource(...)\<close> is recorded in the trace.
\<close>

fun select_loop ::
  "env \<Rightarrow> playback_config \<Rightarrow> sources_config option \<Rightarrow> string option \<Rightarrow> priority list \<Rightarrow> player
     \<Rightarrow> exn + (bool \<times> player)" where
  "select_loop env pb srcs d [] s = Inr (False, s)"
| "select_loop env pb srcs d (p # ps) s =
     (case find (\<lambda>E. id_static E = engineId_of p) (getEngines env) of
        None \<Rightarrow> select_loop env pb srcs d ps s
      | Some E \<Rightarrow>
          (case srcs of
             None \<Rightarrow> Inl TypeError
           | Some sc \<Rightarrow>
               (case formatSources sc (format_of p) of
                  [] \<Rightarrow> select_loop env pb srcs d ps s
                | source # _ \<Rightarrow>
                    if canPlaySource E source (map_of (preferNative pb) (format_of p)) d
                    then Inr (True, (u_loadEngine E source (record_call (CanPlaySource (engineId_of p) source) s))
                                      \<lparr>u_engineType := engineId_of p, u_streamType := format_of p\<rparr>)
                    else select_loop env pb srcs d ps (record_call (CanPlaySource (engineId_of p) source) s))))"

definition u_selectEngineByPriority :: "env \<Rightarrow> player \<Rightarrow> exn + (bool \<times> player)" where
  "u_selectEngineByPriority env s = (case playback (u_config s) of
       None \<Rightarrow> Inl TypeError
     | Some pb \<Rightarrow> select_loop env pb (sources (u_config s)) (drm (u_config s)) (streamPriority pb) s)"

text \<open>
  The engine class and the source that an entry of the priority list designates, and
  whether that engine answers yes for that source: the words of the selection policy,
  for the statements below.
\<close>

definition entry_engine :: "env \<Rightarrow> priority \<Rightarrow> engine_class option" where
  "entry_engine env p = find (\<lambda>E. id_static E = engineId_of p) (getEngines env)"

definition entry_source :: "sources_config \<Rightarrow> priority \<Rightarrow> media_source option" where
  "entry_source sc p = (case formatSources sc (format_of p) of [] \<Rightarrow> None | source # _ \<Rightarrow> Some source)"

definition can_play :: "env \<Rightarrow> playback_config \<Rightarrow> sources_config \<Rightarrow> string option \<Rightarrow> priority \<Rightarrow> bool" where
  "can_play env pb sc d p = (case entry_engine env p of
       None \<Rightarrow> False
     | Some E \<Rightarrow>
         (case entry_source sc p of
            None \<Rightarrow> False
          | Some source \<Rightarrow> canPlaySource E source (map_of (preferNative pb) (format_of p)) d))"

definition asked :: "env \<Rightarrow> sources_config \<Rightarrow> priority \<Rightarrow> call list" where
  "asked env sc p = (case entry_engine env p of
       None \<Rightarrow> []
     | Some E \<Rightarrow>
         (case entry_source sc p of
            None \<Rightarrow> []
          | Some source \<Rightarrow> [CanPlaySource (engineId_of p) source]))"

subsection \<open>Configure\<close>

definition StreamType :: "string list" where
  \<comment> \<open>the values of the table \<^verbatim>\<open>StreamType\<close>, as the getter \<^verbatim>\<open>streamType\<close> documents them\<close>
  "StreamType = [''dash'', ''hls'', ''progressive'']"

definition u_hasSources :: "sources_config option \<Rightarrow> bool" where
  "u_hasSources srcs = (case srcs of
       None \<Rightarrow> False
     | Some sc \<Rightarrow> list_ex (\<lambda>type. formatSources sc type \<noteq> []) StreamType)"

definition u_attachMedia :: "player \<Rightarrow> exn + player" where
  "u_attachMedia s = (case u_engine s of
       None \<Rightarrow> Inr s
     | Some e \<Rightarrow>
         (case playback (config s) of
            None \<Rightarrow> Inl TypeError
          | Some pb \<Rightarrow> Inr (s\<lparr>attached := True\<rparr>)))"

definition set_muted :: "bool \<Rightarrow> player \<Rightarrow> player" where
  "set_muted mute s = (case u_engine s of
       None \<Rightarrow> s
     | Some e \<Rightarrow>
         (let s1 = dispatch_MUTE_CHANGE mute (s\<lparr>u_engine := Some (e\<lparr>eng_muted := mute\<rparr>)\<rparr>)
          in if mute = False then s1\<lparr>u_fallbackToMutedAutoPlay := False\<rparr> else s1))"

definition set_playsinline :: "bool \<Rightarrow> player \<Rightarrow> player" where
  "set_playsinline v s = engine_call (E_set_playsinline v) s"

definition set_crossOrigin :: "string \<Rightarrow> player \<Rightarrow> player" where
  "set_crossOrigin v s = engine_call (E_set_crossOrigin v) s"

fun fin_value :: "number \<Rightarrow> real" where
  "fin_value (Fin x) = x"
| "fin_value n = 0"

definition validPlaybackRates :: "number list \<Rightarrow> number list" where
  "validPlaybackRates rates =
     sort_key fin_value (remdups (filter (\<lambda>n. num_gt n (Fin 0) \<and> num_le n (Fin 16)) rates))"

definition u_handlePlaybackOptions :: "env \<Rightarrow> player \<Rightarrow> player" where
  "u_handlePlaybackOptions env s =
     (let pb = (case playback (u_config s) of None \<Rightarrow> empty_playback | Some pb \<Rightarrow> pb);
          s0 = s\<lparr>u_config := (u_config s)\<lparr>playback := Some pb\<rparr>\<rparr>;
          s1 = (case st_muted (u_playbackAttributesState s0) of
                  Some m \<Rightarrow> set_muted m s0
                | None \<Rightarrow> (case pb_muted pb of Some m \<Rightarrow> set_muted m s0 | None \<Rightarrow> s0));
          s2 = (case st_volume (u_playbackAttributesState s1) of
                  Some v \<Rightarrow> set_volume env v s1
                | None \<Rightarrow> (case pb_volume pb of Some v \<Rightarrow> set_volume env v s1 | None \<Rightarrow> s1));
          s3 = (case playsinline pb of Some v \<Rightarrow> set_playsinline v s2 | None \<Rightarrow> s2);
          s4 = (case crossOrigin pb of Some v \<Rightarrow> set_crossOrigin v s3 | None \<Rightarrow> s3)
      in case playbackRates pb of
           Some rates \<Rightarrow> s4\<lparr>u_playbackRates := Some (validPlaybackRates rates)\<rparr>
         | None \<Rightarrow> s4)"

definition u_handlePreload :: "player \<Rightarrow> exn + player" where
  "u_handlePreload s = (case playback (u_config s) of
       None \<Rightarrow> Inl TypeError
     | Some pb \<Rightarrow> Inr (if preload pb = ''auto'' \<and> \<not> autoplay pb then load s else s))"

text \<open>
  \<^verbatim>\<open>_handleAutoPlay\<close> up to the request for the capabilities; the branches that follow
  its answer run later.
\<close>

definition u_handleAutoPlay :: "player \<Rightarrow> exn + player" where
  "u_handleAutoPlay s = (case playback (u_config s) of
       None \<Rightarrow> Inl TypeError
     | Some pb \<Rightarrow>
         Inr (if autoplay pb then record_call (Collab Capabilities ''getCapabilities'') s
              else record_call (Collab PosterManager ''show'') s))"

definition no_engine_found :: pkerror where
  "no_engine_found = \<lparr>err_severity = CRITICAL, err_category = PLAYER,
     err_code = NO_ENGINE_FOUND_TO_PLAY_THE_SOURCE\<rparr>"

text \<open>
  \<^verbatim>\<open>configure(config)\<close> with sources, up to \<^verbatim>\<open>this._reset = false\<close>: the state in which
  \<^verbatim>\<open>_selectEngineByPriority()\<close> runs.
\<close>

definition configure_prepare :: "env \<Rightarrow> config \<Rightarrow> player \<Rightarrow> exn + player" where
  "configure_prepare env cfg s =
     andThen (u_configureOrLoadPlugins env (plugins cfg) s) (\<lambda>s1.
     andThen (reset (u_maybeCreateAdsController s1)) (\<lambda>s2.
       (let s3 = record_call (Collab ResizeWatcher ''init'') s2;
            s4 = record_event CHANGE_SOURCE_STARTED s3;
            s5 = record_call (Collab PluginManager ''loadMedia'') s4
        in Inr (s5\<lparr>u_config := mergeDeep env (u_config s5) cfg, u_reset := False\<rparr>))))"

definition configure_selected :: "env \<Rightarrow> player \<Rightarrow> exn + player" where
  \<comment> \<open>the branch of \<^verbatim>\<open>configure\<close> after a successful selection\<close>
  "configure_selected env s =
     andThen (case sources (u_config s) of
                None \<Rightarrow> Inl TypeError
              | Some sc \<Rightarrow> dispatch_SOURCE_SELECTED (formatSources sc (u_streamType s)) s) (\<lambda>s1.
     andThen (u_attachMedia s1) (\<lambda>s2.
       (let s3 = u_handlePlaybackOptions env s2;
            s4 = record_call (Collab PosterManager ''setSrc'') s3
        in andThen (u_handlePreload s4) (\<lambda>s5.
           andThen (u_handleAutoPlay s5) (\<lambda>s6.
             Inr (record_event CHANGE_SOURCE_ENDED s6))))))"

definition configure :: "env \<Rightarrow> config \<Rightarrow> player \<Rightarrow> exn + player" where
  "configure env cfg s =
     (if u_hasSources (sources cfg) then
        andThen (configure_prepare env cfg s) (\<lambda>s1.
        andThen (u_selectEngineByPriority env s1) (\<lambda>(found, s2).
          if found then configure_selected env s2
          else Inr (dispatch_ERROR no_engine_found s2)))
      else
        andThen (u_configureOrLoadPlugins env (plugins cfg) (s\<lparr>u_config := mergeDeep env (u_config s) cfg\<rparr>))
          (\<lambda>s1. Inr (u_maybeCreateAdsController s1)))"

subsection \<open>Construction\<close>

definition new_player :: "env \<Rightarrow> player" where
  \<comment> \<open>the fields when the constructor reaches \<^verbatim>\<open>this.configure(config)\<close>\<close>
  "new_player env = u_createReadyPromise
     \<lparr>u_config = DefaultConfig env, u_engine = None, u_tracks = [], u_readyPromise = None,
      u_firstPlay = True, u_firstPlaying = False, u_playbackStart = False, u_playbackEnded = False,
      u_pendingSelectedVideoTrack = None, u_playbackRates = None, u_engineType = [], u_streamType = [],
      u_playbackAttributesState = empty_attributes, u_loadingMedia = False, u_loading = False,
      u_reset = True, u_destroyed = False, u_fallbackToMutedAutoPlay = False, u_adsController = False,
      u_uiComponents = [], u_isOnLiveEdge = False, u_shouldLoadAfterAttach = False, u_plugins = [],
      u_middlewares = [], ready_once = False, ready_error = False, attached = False,
      on_source_selected = [],
      events = [],
      calls = [Collab EngineProvider ''prepareVideoElement'', Collab Capabilities ''runCapabilities'']\<rparr>"

definition constructor :: "env \<Rightarrow> config \<Rightarrow> exn + player" where
  "constructor env cfg = configure env cfg (new_player env)"

subsection \<open>A concrete environment\<close>

text \<open>
  Two engines, a loader that gives every plugin a middleware, and a default configuration:
  the inputs at which the theorems below are instantiated.
\<close>

definition fresh_engine :: "string \<Rightarrow> engine" where
  "fresh_engine i = \<lparr>eng_id = i, eng_src = None, eng_duration = NaN, eng_currentTime = Fin 0,
     eng_volume = Fin 1, eng_muted = False, eng_isLive = False\<rparr>"

definition html5 :: engine_class where
  "html5 = \<lparr>id_static = ''html5'',
     canPlaySource = (\<lambda>source preferNative d. mimetype source = ''video/mp4''),
     createEngine = (\<lambda>source. fresh_engine ''html5'')\<rparr>"

definition flash :: engine_class where
  "flash = \<lparr>id_static = ''flash'',
     canPlaySource = (\<lambda>source preferNative d. mimetype source = ''application/x-mpegURL''),
     createEngine = (\<lambda>source. fresh_engine ''flash'')\<rparr>"

definition example_playback :: playback_config where
  "example_playback = empty_playback\<lparr>
     streamPriority := [\<lparr>pr_engine = Some ''Flash'', pr_format = Some ''hls''\<rparr>,
                        \<lparr>pr_engine = Some ''html5'', pr_format = Some ''hls''\<rparr>,
                        \<lparr>pr_engine = Some ''html5'', pr_format = Some ''progressive''\<rparr>],
     preload := ''none''\<rparr>"

definition example_config :: config where
  "example_config = \<lparr>playback = Some example_playback, sources = Some empty_sources,
     plugins = Some [], drm = None\<rparr>"

definition example_mergeDeep :: "config \<Rightarrow> config \<Rightarrow> config" where
  \<comment> \<open>a merge that overlays the sections the second object has\<close>
  "example_mergeDeep target c =
     \<lparr>playback = (case playback c of None \<Rightarrow> playback target | Some pb \<Rightarrow> Some pb),
      sources = (case sources c of None \<Rightarrow> sources target | Some sc \<Rightarrow> Some sc),
      plugins = (case plugins c of None \<Rightarrow> plugins target | Some ps \<Rightarrow> Some ps),
      drm = (case drm c of None \<Rightarrow> drm target | Some d \<Rightarrow> Some d)\<rparr>"

definition example_plugin :: "string \<Rightarrow> plugin_config \<Rightarrow> plugin" where
  "example_plugin n c = \<lparr>name = n, pl_config = c, getMiddlewareImpl = Some (Some (n @ ''-middleware'')),
     getUIComponents = None, adsController = False\<rparr>"

definition example_isFloat :: "number \<Rightarrow> bool" where
  \<comment> \<open>a number with a fractional part\<close>
  "example_isFloat n = (case n of Fin x \<Rightarrow> frac x \<noteq> 0 | NaN \<Rightarrow> False | _ \<Rightarrow> True)"

definition example_env :: env where
  "example_env = \<lparr>getEngines = [html5, flash],
     mergeDeep = example_mergeDeep,
     pluginLoad = (\<lambda>n c. Inr (Some (example_plugin n c))),
     langComparer = (\<lambda>inputLang trackLang. inputLang \<noteq> [] \<and> toLowerCase inputLang = toLowerCase trackLang),
     locale_language = ''fr'',
     isNumber = (\<lambda>n. n \<noteq> NaN),
     isFloat = example_isFloat,
     DefaultConfig = example_config\<rparr>"

definition mp4 :: media_source where
  "mp4 = \<lparr>url = ''clip.mp4'', mimetype = ''video/mp4''\<rparr>"

definition m3u8 :: media_source where
  "m3u8 = \<lparr>url = ''stream.m3u8'', mimetype = ''application/x-mpegURL''\<rparr>"

definition mpd :: media_source where
  "mpd = \<lparr>url = ''manifest.mpd'', mimetype = ''application/dash+xml''\<rparr>"

definition sources_of :: "(string \<times> media_source list) list \<Rightarrow> config" where
  "sources_of fs = empty_config\<lparr>sources := Some (empty_sources\<lparr>by_format := fs, src_type := Some VOD\<rparr>)\<rparr>"

definition bound_player :: "engine \<Rightarrow> player" where
  \<comment> \<open>a player whose engine is \<open>e\<close>, otherwise as constructed\<close>
  "bound_player e = (new_player example_env)\<lparr>u_engine := Some e\<rparr>"

definition mp4_player :: player where
  \<comment> \<open>the player that the constructor gives for one progressive source (lemma \<open>constructor_mp4\<close>)\<close>
  "mp4_player = (new_player example_env)\<lparr>
     u_config := example_config\<lparr>sources := Some (empty_sources\<lparr>by_format := [(''progressive'', [mp4])],
                                                                  src_type := Some VOD\<rparr>)\<rparr>,
     u_engine := Some (fresh_engine ''html5''),
     u_engineType := ''html5'', u_streamType := ''progressive'',
     u_reset := False, attached := True,
     events := [CHANGE_SOURCE_STARTED, SOURCE_SELECTED [mp4], CHANGE_SOURCE_ENDED],
     calls := [Collab EngineProvider ''prepareVideoElement'', Collab Capabilities ''runCapabilities'',
               Collab ResizeWatcher ''init'', Collab PluginManager ''loadMedia'',
               CanPlaySource ''html5'' mp4, CreateEngine ''html5'' mp4,
               Collab PosterManager ''setSrc'', Collab PosterManager ''show'']\<rparr>"

definition text_track :: "int \<Rightarrow> string \<Rightarrow> track" where
  "text_track i lang = \<lparr>kind = TextTrack, index = i, active = False, label = lang, language = lang,
     external = False\<rparr>"

definition video_track :: "int \<Rightarrow> track" where
  "video_track i = \<lparr>kind = VideoTrack, index = i, active = False, label = ''720p'', language = [],
     external = False\<rparr>"

subsection \<open>Predicates of the statements\<close>

definition ready_pending :: "player \<Rightarrow> bool" where
  \<comment> \<open>a readiness future that is not settled, with its two listeners registered\<close>
  "ready_pending s = (u_readyPromise s = Some Pending \<and> ready_once s \<and> ready_error s)"

definition is_binding_call :: "call \<Rightarrow> bool" where
  \<comment> \<open>the calls that bind or unbind an engine: destroy, restore, create\<close>
  "is_binding_call c = (case c of
       EngineCall i op \<Rightarrow> (case op of E_destroy \<Rightarrow> True | E_restore source \<Rightarrow> True | _ \<Rightarrow> False)
     | CreateEngine i source \<Rightarrow> True
     | _ \<Rightarrow> False)"

definition is_no_engine_error :: "event \<Rightarrow> bool" where
  "is_no_engine_error ev = (case ev of
       ERROR err \<Rightarrow> err_code err = NO_ENGINE_FOUND_TO_PLAY_THE_SOURCE
     | _ \<Rightarrow> False)"

definition calls_extend :: "(call \<Rightarrow> bool) \<Rightarrow> player \<Rightarrow> player \<Rightarrow> bool" where
  \<comment> \<open>from \<open>s\<close> to \<open>s'\<close> the trace only grows, by calls that satisfy \<open>P\<close>\<close>
  "calls_extend P s s' = (\<exists>cs. calls s' = calls s @ cs \<and> list_all P cs)"

definition events_extend :: "(event \<Rightarrow> bool) \<Rightarrow> player \<Rightarrow> player \<Rightarrow> bool" where
  "events_extend P s s' = (\<exists>evs. events s' = events s @ evs \<and> list_all P evs)"

definition middleware_of :: "env \<Rightarrow> string \<times> plugin_config \<Rightarrow> string" where
  \<comment> \<open>the middleware of the plugin that the loader gives for an entry of the plugins object\<close>
  "middleware_of env nc = (case pluginLoad env (fst nc) (snd nc) of
       Inr (Some p) \<Rightarrow> (case getMiddlewareImpl p of Some (Some m) \<Rightarrow> m | _ \<Rightarrow> [])
     | _ \<Rightarrow> [])"

definition same_binding :: "player \<Rightarrow> player \<Rightarrow> bool" where
  \<comment> \<open>from \<open>s\<close> to \<open>s'\<close> the bound engine keeps its identity and no engine is created, restored or destroyed\<close>
  "same_binding s s' = (map_option eng_id (u_engine s') = map_option eng_id (u_engine s)
     \<and> u_engineType s' = u_engineType s \<and> u_streamType s' = u_streamType s
     \<and> calls_extend (\<lambda>c. \<not> is_binding_call c) s s')"

section \<open>Properties\<close>

subsection \<open>Numbers\<close>

lemma num_lt_irrefl: "\<not> num_lt a a"
  by (cases a) auto

lemma num_lt_0_1: "num_lt a (Fin 0) \<Longrightarrow> \<not> num_lt (Fin 1) a"
  by (cases a) auto

subsection \<open>The example environment\<close>

lemmas example_defs = bound_player_def new_player_def example_env_def fresh_engine_def
  u_createReadyPromise_def example_config_def empty_sources_def example_isFloat_def
  empty_attributes_def example_playback_def empty_playback_def

subsection \<open>Destroy and the readiness gate\<close>

lemmas destroy_unfold = destroy_def Let_def removeAll_listeners_def record_event_def
  record_call_def engine_call_def u_resetStateFlags_def

lemma destroy_fields:
  "\<not> u_destroyed s \<Longrightarrow>
     u_destroyed (destroy s) \<and> u_config (destroy s) = empty_config
   \<and> u_engine (destroy s) = u_engine s
   \<and> events (destroy s) = events s @ [PLAYER_DESTROY]
   \<and> \<not> u_playbackStart (destroy s) \<and> u_reset (destroy s) = u_reset s
   \<and> u_readyPromise (destroy s) = None \<and> u_middlewares (destroy s) = u_middlewares s"
  by (simp add: destroy_unfold split: option.splits)

lemma destroy_twice: "destroy (destroy s) = destroy s"
  by (cases "u_destroyed s") (simp_all add: destroy_def[of "destroy s"] destroy_fields, simp add: destroy_def)

text \<open>
  Claim C10. \<^verbatim>\<open>destroy()\<close> on a player that is not yet destroyed clears the readiness
  future, so \<^verbatim>\<open>ready()\<close> then gives the already fulfilled promise of its fallback: it is
  neither pending nor rejected.
\<close>

theorem C10_ready_after_destroy:
  "\<not> u_destroyed s \<Longrightarrow>
     u_readyPromise (destroy s) = None \<and> ready (destroy s) = Fulfilled \<and> u_destroyed (destroy s)"
  by (simp add: destroy_fields ready_def)

theorem C10_ready_after_destroy_witness:
  "ready (new_player example_env) = Pending
   \<and> u_readyPromise (destroy (new_player example_env)) = None
   \<and> ready (destroy (new_player example_env)) = Fulfilled
   \<and> u_destroyed (destroy (new_player example_env))"
proof -
  have h: "\<not> u_destroyed (new_player example_env)"
    by (simp add: new_player_def u_createReadyPromise_def)
  have p: "ready (new_player example_env) = Pending"
    by (simp add: new_player_def u_createReadyPromise_def ready_def catch_silenced_def)
  show ?thesis
    using C10_ready_after_destroy [OF h] p by simp
qed

subsection \<open>Out-of-range time and volume\<close>

text \<open>
  Claim C9, as amended. With an engine bound: a negative number that passes
  \<^verbatim>\<open>isNumber\<close> sets the engine's time to 0 whenever \<^verbatim>\<open>isLive()\<close> returns and the safe
  duration (the duration when live, the duration less 0.1 otherwise) is not below 0.
  \<^verbatim>\<open>isLive()\<close> returns, and the time setter with it, whenever the configuration has its
  sources section; on a configuration without it (after \<^verbatim>\<open>destroy()\<close>) the time setter
  throws a TypeError for every value that passes \<^verbatim>\<open>isNumber\<close>. A volume above 1 that
  passes \<^verbatim>\<open>isFloat\<close> sets the engine's volume to 1, and a volume above 1 that does not
  pass it is ignored: the player is left as it is. Neither setter dispatches any event,
  whatever the value.
\<close>

theorem C9_setters_clamp:
  "u_engine s = Some e \<Longrightarrow>
     (\<forall>live. isNumber env to \<and> num_lt to (Fin 0) \<and> isLive s = Inr live \<and>
         \<not> num_lt (if live then eng_duration e else num_minus (eng_duration e) DURATION_OFFSET) (Fin 0)
        \<longrightarrow> set_currentTime env to s = Inr (s\<lparr>u_engine := Some (e\<lparr>eng_currentTime := Fin 0\<rparr>)\<rparr>))
   \<and> (sources (u_config s) \<noteq> None
        \<longrightarrow> (\<exists>live. isLive s = Inr live) \<and> (\<exists>s'. set_currentTime env to s = Inr s'))
   \<and> (sources (u_config s) = None \<and> isNumber env to \<longrightarrow> set_currentTime env to s = Inl TypeError)
   \<and> (isFloat env vol \<and> num_gt vol (Fin 1)
        \<longrightarrow> set_volume env vol s = s\<lparr>u_engine := Some (e\<lparr>eng_volume := Fin 1\<rparr>)\<rparr>)
   \<and> (\<not> isFloat env vol \<and> num_gt vol (Fin 1) \<longrightarrow> set_volume env vol s = s)
   \<and> (\<forall>s'. set_currentTime env to s = Inr s' \<longrightarrow> events s' = events s)
   \<and> events (set_volume env vol s) = events s"
proof (intro conjI)
  assume e: "u_engine s = Some e"
  show "\<forall>live. isNumber env to \<and> num_lt to (Fin 0) \<and> isLive s = Inr live \<and>
         \<not> num_lt (if live then eng_duration e else num_minus (eng_duration e) DURATION_OFFSET) (Fin 0)
        \<longrightarrow> set_currentTime env to s = Inr (s\<lparr>u_engine := Some (e\<lparr>eng_currentTime := Fin 0\<rparr>)\<rparr>)"
    using e by (auto simp: set_currentTime_def andThen_def Let_def num_gt_def)
  show "sources (u_config s) \<noteq> None
        \<longrightarrow> (\<exists>live. isLive s = Inr live) \<and> (\<exists>s'. set_currentTime env to s = Inr s')"
    using e by (auto simp: set_currentTime_def andThen_def Let_def isLive_def)
  show "sources (u_config s) = None \<and> isNumber env to \<longrightarrow> set_currentTime env to s = Inl TypeError"
    using e by (simp add: set_currentTime_def andThen_def Let_def isLive_def)
  show "isFloat env vol \<and> num_gt vol (Fin 1)
        \<longrightarrow> set_volume env vol s = s\<lparr>u_engine := Some (e\<lparr>eng_volume := Fin 1\<rparr>)\<rparr>"
    using e by (auto simp: set_volume_def Let_def num_gt_def num_lt_0_1)
  show "\<not> isFloat env vol \<and> num_gt vol (Fin 1) \<longrightarrow> set_volume env vol s = s"
    using e by (cases vol) (auto simp: set_volume_def Let_def num_gt_def num_eq_def)
  show "\<forall>s'. set_currentTime env to s = Inr s' \<longrightarrow> events s' = events s"
    using e by (auto simp: set_currentTime_def andThen_def Let_def isLive_def
          split: option.splits if_splits)
  show "events (set_volume env vol s) = events s"
    using e by (simp add: set_volume_def Let_def)
qed

theorem C9_setters_clamp_witness:
  "set_currentTime example_env (Fin (- 5)) (bound_player ((fresh_engine ''html5'')\<lparr>eng_duration := Fin 60\<rparr>))
     = Inr ((bound_player ((fresh_engine ''html5'')\<lparr>eng_duration := Fin 60\<rparr>))
              \<lparr>u_engine := Some ((fresh_engine ''html5'')\<lparr>eng_duration := Fin 60, eng_currentTime := Fin 0\<rparr>)\<rparr>)
   \<and> set_volume example_env (Fin (3 / 2)) (bound_player ((fresh_engine ''html5'')\<lparr>eng_duration := Fin 60\<rparr>))
     = (bound_player ((fresh_engine ''html5'')\<lparr>eng_duration := Fin 60\<rparr>))
              \<lparr>u_engine := Some ((fresh_engine ''html5'')\<lparr>eng_duration := Fin 60, eng_volume := Fin 1\<rparr>)\<rparr>
   \<and> set_volume example_env (Fin 3) (bound_player ((fresh_engine ''html5'')\<lparr>eng_duration := Fin 60\<rparr>))
     = bound_player ((fresh_engine ''html5'')\<lparr>eng_duration := Fin 60\<rparr>)
   \<and> set_currentTime example_env (Fin 7) (destroy mp4_player) = Inl TypeError"
proof -
  let ?e = "(fresh_engine ''html5'')\<lparr>eng_duration := Fin 60\<rparr>"
  let ?w = "bound_player ?e"
  have h: "u_engine ?w = Some ?e"
    by (simp add: bound_player_def)
  have t: "isNumber example_env (Fin (- 5)) \<and> num_lt (Fin (- 5)) (Fin 0) \<and> isLive ?w = Inr False
           \<and> \<not> num_lt (if False then eng_duration ?e else num_minus (eng_duration ?e) DURATION_OFFSET) (Fin 0)"
    by (simp add: example_defs isLive_def DURATION_OFFSET_def)
  have v: "isFloat example_env (Fin (3 / 2)) \<and> num_gt (Fin (3 / 2)) (Fin 1)"
    by (simp add: example_env_def example_isFloat_def num_gt_def frac_def)
  have i: "\<not> isFloat example_env (Fin 3) \<and> num_gt (Fin 3) (Fin 1)"
    by (simp add: example_env_def example_isFloat_def num_gt_def)
  have nd: "\<not> u_destroyed mp4_player"
    by (simp add: mp4_player_def example_defs)
  have d: "u_engine (destroy mp4_player) = Some (fresh_engine ''html5'')"
    using destroy_fields [OF nd] by (simp add: mp4_player_def)
  have n: "sources (u_config (destroy mp4_player)) = None \<and> isNumber example_env (Fin 7)"
    using destroy_fields [OF nd] by (simp add: empty_config_def example_env_def)
  from C9_setters_clamp [OF h, of example_env "Fin (- 5)" "Fin (3 / 2)"] t v
  have a: "set_currentTime example_env (Fin (- 5)) ?w = Inr (?w\<lparr>u_engine := Some (?e\<lparr>eng_currentTime := Fin 0\<rparr>)\<rparr>)
        \<and> set_volume example_env (Fin (3 / 2)) ?w = ?w\<lparr>u_engine := Some (?e\<lparr>eng_volume := Fin 1\<rparr>)\<rparr>"
    by blast
  from C9_setters_clamp [OF h, of example_env "Fin (- 5)" "Fin 3"] i
  have b: "set_volume example_env (Fin 3) ?w = ?w"
    by blast
  from C9_setters_clamp [OF d, of example_env "Fin 7" "Fin 3"] n
  have c: "set_currentTime example_env (Fin 7) (destroy mp4_player) = Inl TypeError"
    by blast
  from a b c show ?thesis
    by simp
qed

text \<open>
  The claim as stated fails three times. On a clip that is not live and has duration 0,
  setting the time to -5 leaves the engine at -0.1: the lower bound is applied before the
  upper one. With \<^verbatim>\<open>isFloat\<close> a test for a fractional part, the volume 2 is ignored: the
  engine keeps the volume it had. And on the player constructed for a progressive source
  and then destroyed, whose engine is still bound, setting the time to -5 throws.
\<close>

theorem C9_counterexample:
  "set_currentTime example_env (Fin (- 5)) (bound_player ((fresh_engine ''html5'')\<lparr>eng_duration := Fin 0\<rparr>))
     = Inr (bound_player ((fresh_engine ''html5'')\<lparr>eng_duration := Fin 0, eng_currentTime := Fin (- (1 / 10))\<rparr>))
   \<and> set_volume example_env (Fin 2) (bound_player ((fresh_engine ''html5'')\<lparr>eng_volume := Fin (1 / 2)\<rparr>))
     = bound_player ((fresh_engine ''html5'')\<lparr>eng_volume := Fin (1 / 2)\<rparr>)
   \<and> u_engine (destroy mp4_player) = Some (fresh_engine ''html5'')
   \<and> set_currentTime example_env (Fin (- 5)) (destroy mp4_player) = Inl TypeError"
proof -
  have nd: "\<not> u_destroyed mp4_player"
    by (simp add: mp4_player_def example_defs)
  have d: "u_engine (destroy mp4_player) = Some (fresh_engine ''html5'')
           \<and> sources (u_config (destroy mp4_player)) = None"
    using destroy_fields [OF nd] by (simp add: mp4_player_def empty_config_def)
  have t: "set_currentTime example_env (Fin (- 5)) (destroy mp4_player) = Inl TypeError"
    using d by (simp add: set_currentTime_def isLive_def andThen_def example_env_def)
  have a: "set_currentTime example_env (Fin (- 5)) (bound_player ((fresh_engine ''html5'')\<lparr>eng_duration := Fin 0\<rparr>))
     = Inr (bound_player ((fresh_engine ''html5'')\<lparr>eng_duration := Fin 0, eng_currentTime := Fin (- (1 / 10))\<rparr>))
   \<and> set_volume example_env (Fin 2) (bound_player ((fresh_engine ''html5'')\<lparr>eng_volume := Fin (1 / 2)\<rparr>))
     = bound_player ((fresh_engine ''html5'')\<lparr>eng_volume := Fin (1 / 2)\<rparr>)"
    by (simp add: set_currentTime_def set_volume_def example_defs isLive_def andThen_def Let_def
        num_gt_def num_eq_def DURATION_OFFSET_def)
  from a d t show ?thesis
    by simp
qed

subsection \<open>Reset\<close>

text \<open>
  Claim C6, as amended. Whenever \<^verbatim>\<open>reset()\<close> returns, a second \<^verbatim>\<open>reset()\<close> returns the
  very state it is given: no collaborator is called, no event is dispatched, nothing
  changes. The first call returns whenever the configuration has its playback section
  (every player that is not destroyed), with or without an engine.

  On a player that is not in its reset state and whose configuration has no playback
  section (a player destroyed while it had sources), \<^verbatim>\<open>reset()\<close> throws a TypeError in
  \<^verbatim>\<open>_updateTextDisplay\<close>. By then it has paused and has reset the four collaborators,
  and the state it leaves is again not in its reset state and without a playback section:
  the next \<^verbatim>\<open>reset()\<close> does the same once more.
\<close>

theorem C6_reset_idempotent:
  "(playback (u_config s) \<noteq> None \<longrightarrow> (\<exists>s'. reset s = Inr s'))
   \<and> (\<forall>s'. reset s = Inr s' \<longrightarrow> reset s' = Inr s' \<and> u_reset s')
   \<and> (\<not> u_reset s \<and> playback (u_config s) = None \<longrightarrow>
        reset s = Inl TypeError
      \<and> u_updateTextDisplay (reset_services s) = Inl TypeError
      \<and> calls (reset_services s) = calls (pause s) @
          [Collab ExternalCaptionsHandler ''reset'', Collab PosterManager ''reset'',
           Collab PluginManager ''reset'', Collab StateManager ''reset'']
      \<and> events (reset_services s) = events s
      \<and> \<not> u_reset (reset_services s) \<and> playback (u_config (reset_services s)) = None
      \<and> reset (reset_services s) = Inl TypeError)"
proof (intro conjI)
  show "playback (u_config s) \<noteq> None \<longrightarrow> (\<exists>s'. reset s = Inr s')"
    by (auto simp: reset_def reset_services_def Let_def andThen_def u_updateTextDisplay_def
          pause_def record_call_def split: option.splits)
  show "\<forall>s'. reset s = Inr s' \<longrightarrow> reset s' = Inr s' \<and> u_reset s'"
    by (auto simp: reset_def reset_services_def Let_def andThen_def u_updateTextDisplay_def pause_def
        removeAll_listeners_def record_event_def record_call_def engine_call_def
        u_resetStateFlags_def u_createReadyPromise_def split: option.splits if_splits)
  have f: "u_reset (reset_services s) = u_reset s
           \<and> playback (u_config (reset_services s)) = playback (u_config s)
           \<and> events (reset_services s) = events s
           \<and> calls (reset_services s) = calls (pause s) @
          [Collab ExternalCaptionsHandler ''reset'', Collab PosterManager ''reset'',
           Collab PluginManager ''reset'', Collab StateManager ''reset'']"
    by (simp add: reset_services_def Let_def pause_def record_call_def split: option.splits)
  have t: "\<not> u_reset x \<and> playback (u_config x) = None \<longrightarrow> reset x = Inl TypeError
             \<and> u_updateTextDisplay (reset_services x) = Inl TypeError" for x
    by (simp add: reset_def reset_services_def Let_def andThen_def u_updateTextDisplay_def
          pause_def record_call_def split: option.splits)
  show "\<not> u_reset s \<and> playback (u_config s) = None \<longrightarrow>
        reset s = Inl TypeError
      \<and> u_updateTextDisplay (reset_services s) = Inl TypeError
      \<and> calls (reset_services s) = calls (pause s) @
          [Collab ExternalCaptionsHandler ''reset'', Collab PosterManager ''reset'',
           Collab PluginManager ''reset'', Collab StateManager ''reset'']
      \<and> events (reset_services s) = events s
      \<and> \<not> u_reset (reset_services s) \<and> playback (u_config (reset_services s)) = None
      \<and> reset (reset_services s) = Inl TypeError"
    using f t [of s] t [of "reset_services s"] by simp
qed

theorem C6_reset_idempotent_witness:
  "u_engine ((new_player example_env)\<lparr>u_reset := False\<rparr>) = None
   \<and> (\<exists>s'. reset ((new_player example_env)\<lparr>u_reset := False\<rparr>) = Inr s'
          \<and> PLAYER_RESET \<in> set (events s') \<and> reset s' = Inr s' \<and> u_reset s')
   \<and> reset (destroy mp4_player) = Inl TypeError
   \<and> reset (reset_services (destroy mp4_player)) = Inl TypeError"
proof -
  let ?w = "(new_player example_env)\<lparr>u_reset := False\<rparr>"
  have e: "u_engine ?w = None"
    by (simp add: new_player_def u_createReadyPromise_def)
  have r: "\<exists>s'. reset ?w = Inr s' \<and> PLAYER_RESET \<in> set (events s')"
    by (simp add: reset_def reset_services_def Let_def andThen_def u_updateTextDisplay_def pause_def
          removeAll_listeners_def record_event_def record_call_def engine_call_def
          u_resetStateFlags_def example_defs)
  then obtain s' where s': "reset ?w = Inr s'" "PLAYER_RESET \<in> set (events s')"
    by blast
  from C6_reset_idempotent [of ?w] s' have a: "reset s' = Inr s' \<and> u_reset s'"
    by blast
  have nd: "\<not> u_destroyed mp4_player"
    by (simp add: mp4_player_def example_defs)
  have d: "\<not> u_reset (destroy mp4_player) \<and> playback (u_config (destroy mp4_player)) = None"
    using destroy_fields [OF nd] by (simp add: mp4_player_def empty_config_def)
  from C6_reset_idempotent [of "destroy mp4_player"] d
  have b: "reset (destroy mp4_player) = Inl TypeError
           \<and> reset (reset_services (destroy mp4_player)) = Inl TypeError"
    by blast
  from e s' a b show ?thesis
    by blast
qed

subsection \<open>The readiness gate\<close>

lemma ready_not_rejected: "ready s \<noteq> Rejected"
  by (simp add: ready_def catch_silenced_def split: option.splits promise.splits)

lemma reset_creates_ready: "\<not> u_reset s \<Longrightarrow> reset s = Inr s' \<Longrightarrow> ready_pending s'"
  by (auto simp: ready_pending_def reset_def reset_services_def Let_def andThen_def u_createReadyPromise_def split: sum.splits)

lemma tracks_changed_resolves:
  "ready_pending s \<Longrightarrow>
     ready (dispatch_TRACKS_CHANGED ts s) = Fulfilled
   \<and> u_readyPromise (dispatch_TRACKS_CHANGED ts s) = Some Fulfilled
   \<and> u_readyPromise (dispatch_ERROR err (dispatch_TRACKS_CHANGED ts s)) = Some Fulfilled"
  by (simp add: ready_pending_def ready_def catch_silenced_def dispatch_TRACKS_CHANGED_def
        dispatch_ERROR_def record_event_def Let_def resolve_def reject_def)

lemma critical_error_rejects:
  "ready_pending s \<Longrightarrow> err_severity err = CRITICAL \<Longrightarrow>
     u_readyPromise (dispatch_ERROR err s) = Some Rejected
   \<and> ready (dispatch_ERROR err s) = Fulfilled
   \<and> u_readyPromise (dispatch_TRACKS_CHANGED ts (dispatch_ERROR err s)) = Some Rejected
   \<and> ready (dispatch_TRACKS_CHANGED ts (dispatch_ERROR err s)) = Fulfilled"
  by (simp add: ready_pending_def ready_def catch_silenced_def dispatch_TRACKS_CHANGED_def
        dispatch_ERROR_def record_event_def Let_def resolve_def reject_def)

lemma other_error_keeps_pending:
  "ready_pending s \<Longrightarrow> err_severity err \<noteq> CRITICAL \<Longrightarrow> ready_pending (dispatch_ERROR err s)"
  by (simp add: ready_pending_def dispatch_ERROR_def record_event_def Let_def)

text \<open>
  Claim C5. \<^verbatim>\<open>ready()\<close> gives the current future, or a fulfilled one when the field is
  null, and what it gives is never rejected. The constructor and every \<^verbatim>\<open>reset()\<close> that
  runs (one that finds the player already reset returns at once and keeps the current
  future) leave a pending future with its listeners registered. From there a
  TRACKS_CHANGED event fulfils it, and a later error changes nothing; a critical ERROR
  event first rejects the executor's promise, which the caller of \<^verbatim>\<open>ready()\<close> sees as
  fulfilled, and a later TRACKS_CHANGED changes nothing; an error that is not critical
  leaves the future pending with its listeners.
\<close>

theorem C5_readiness_gate:
  "ready s \<noteq> Rejected
   \<and> (u_readyPromise s = None \<longrightarrow> ready s = Fulfilled)
   \<and> (\<forall>p. u_readyPromise s = Some p \<longrightarrow> ready s = catch_silenced p)
   \<and> ready_pending (new_player env)
   \<and> (\<forall>s'. \<not> u_reset s \<and> reset s = Inr s' \<longrightarrow> ready_pending s')
   \<and> (ready_pending s \<longrightarrow>
         ready s = Pending
       \<and> (\<exists>s1. dispatchEvent env (TRACKS_CHANGED ts) s = Inr s1 \<and> ready s1 = Fulfilled
               \<and> u_readyPromise s1 = Some Fulfilled
               \<and> (\<exists>s2. dispatchEvent env (ERROR err) s1 = Inr s2 \<and> u_readyPromise s2 = Some Fulfilled))
       \<and> (\<exists>s1. dispatchEvent env (ERROR err) s = Inr s1
               \<and> (err_severity err = CRITICAL \<longrightarrow>
                     u_readyPromise s1 = Some Rejected \<and> ready s1 = Fulfilled
                   \<and> (\<exists>s2. dispatchEvent env (TRACKS_CHANGED ts) s1 = Inr s2
                          \<and> u_readyPromise s2 = Some Rejected \<and> ready s2 = Fulfilled))
               \<and> (err_severity err \<noteq> CRITICAL \<longrightarrow> ready_pending s1)))"
proof -
  have a: "ready s \<noteq> Rejected"
    by (rule ready_not_rejected)
  have b: "u_readyPromise s = None \<longrightarrow> ready s = Fulfilled"
    by (simp add: ready_def)
  have c: "\<forall>p. u_readyPromise s = Some p \<longrightarrow> ready s = catch_silenced p"
    by (simp add: ready_def)
  have d: "ready_pending (new_player env)"
    by (simp add: ready_pending_def new_player_def u_createReadyPromise_def)
  have e: "\<forall>s'. \<not> u_reset s \<and> reset s = Inr s' \<longrightarrow> ready_pending s'"
    using reset_creates_ready by blast
  have f: "ready_pending s \<longrightarrow> ready s = Pending"
    by (simp add: ready_pending_def ready_def catch_silenced_def)
  have g: "dispatchEvent env (TRACKS_CHANGED ts) x = Inr (dispatch_TRACKS_CHANGED ts x)"
          "dispatchEvent env (ERROR err) x = Inr (dispatch_ERROR err x)" for x
    by (simp_all add: dispatchEvent_def)
  show ?thesis
    using a b c d e f tracks_changed_resolves [of s ts err] critical_error_rejects [of s err ts]
      other_error_keeps_pending [of s err]
    by (simp add: g)
qed

theorem C5_readiness_gate_witness:
  "ready (new_player example_env) = Pending
   \<and> (\<exists>s1. dispatchEvent example_env (TRACKS_CHANGED []) (new_player example_env) = Inr s1
          \<and> ready s1 = Fulfilled \<and> u_readyPromise s1 = Some Fulfilled)
   \<and> (\<exists>s1. dispatchEvent example_env (ERROR no_source_provided) (new_player example_env) = Inr s1
          \<and> u_readyPromise s1 = Some Rejected \<and> ready s1 = Fulfilled)"
proof -
  have c: "err_severity no_source_provided = CRITICAL"
    by (simp add: no_source_provided_def)
  from C5_readiness_gate [of "new_player example_env" example_env "[]" no_source_provided] c
  show ?thesis
    by blast
qed

subsection \<open>A video track selected after the end of playback\<close>

text \<open>
  Claim C4. With an engine bound and its listeners attached, selecting a video track
  while \<^verbatim>\<open>_playbackEnded\<close> is set calls nothing on the engine and stores the track as
  pending. The next PLAYING event calls the engine's \<^verbatim>\<open>selectVideoTrack\<close> with that track,
  once, and clears the pending selection; a second PLAYING event calls nothing.
\<close>

theorem C4_pending_video_track:
  "u_engine s = Some e \<and> u_playbackEnded s \<and> kind t = VideoTrack \<and> attached s \<longrightarrow>
     (\<exists>s1 s2. selectTrack t s = Inr s1 \<and> calls s1 = calls s
        \<and> u_pendingSelectedVideoTrack s1 = Some t
        \<and> dispatchEvent env PLAYING s1 = Inr s2
        \<and> calls s2 = calls s @ [EngineCall (eng_id e) (E_selectVideoTrack t)]
        \<and> u_pendingSelectedVideoTrack s2 = None
        \<and> (\<exists>s3. dispatchEvent env PLAYING s2 = Inr s3 \<and> calls s3 = calls s2
               \<and> u_pendingSelectedVideoTrack s3 = None))"
  by (simp add: selectTrack_def dispatchEvent_def u_onPlaying_def record_event_def Let_def
        engine_call_def record_call_def)

subsection \<open>Evaluating the model\<close>

lemma toLowerCase_examples:
  "toLowerCase ''Flash'' = ''flash''" "toLowerCase ''html5'' = ''html5''"
  "toLowerCase ''hls'' = ''hls''" "toLowerCase ''progressive'' = ''progressive''"
  by (simp_all add: toLowerCase_def lower_char_def)

lemmas model_defs = configure_def configure_prepare_def configure_selected_def constructor_def
  u_configureOrLoadPlugins_def u_maybeCreateAdsController_def reset_def reset_services_def u_hasSources_def
  StreamType_def formatSources_def sources_of_def empty_config_def u_selectEngineByPriority_def
  u_loadEngine_def u_createEngine_def engineId_of_def format_of_def html5_def flash_def mp4_def
  m3u8_def mpd_def dispatch_SOURCE_SELECTED_def dispatch_ERROR_def dispatch_MUTE_CHANGE_def
  u_attachMedia_def u_handlePlaybackOptions_def u_handlePreload_def u_handleAutoPlay_def load_def
  src_def config_def andThen_def Let_def record_call_def record_event_def engine_call_def
  example_mergeDeep_def no_engine_found_def pause_def u_updateTextDisplay_def
  u_resetStateFlags_def removeAll_listeners_def toLowerCase_examples

lemma constructor_mp4:
  "constructor example_env (sources_of [(''progressive'', [mp4])]) = Inr mp4_player"
  by (simp add: model_defs example_defs mp4_player_def)

lemmas mp4_player_defs = mp4_player_def example_defs mp4_def

subsection \<open>Calls after destroy\<close>

lemma pause_events: "events (pause s) = events s"
  by (simp add: pause_def record_call_def split: option.splits)

lemma reset_without_playback:
  "playback (u_config s) = None \<Longrightarrow> reset s = (if u_reset s then Inr s else Inl TypeError)"
  by (simp add: reset_def reset_services_def Let_def andThen_def u_updateTextDisplay_def pause_def record_call_def
        split: option.splits)

lemma play_emits_start:
  "\<not> u_playbackStart s \<Longrightarrow>
     u_playbackStart (play s) \<and> (\<exists>evs. events (play s) = events s @ PLAYBACK_START # evs)"
  by (simp add: play_def Let_def load_def src_def u_prepareVideoElement_def dispatch_ERROR_def
        record_event_def record_call_def split: option.splits)

text \<open>
  Claim C7, as amended. After \<^verbatim>\<open>destroy()\<close> on a player not yet destroyed, another
  \<^verbatim>\<open>destroy()\<close> changes nothing and \<^verbatim>\<open>pause()\<close> dispatches no event. The other methods
  do not look at the destroyed flag: \<^verbatim>\<open>reset()\<close> changes nothing when the player was in
  its reset state and throws a TypeError otherwise (the configuration is \<^verbatim>\<open>{}\<close> by
  then), and \<^verbatim>\<open>play()\<close> sets \<^verbatim>\<open>_playbackStart\<close> and dispatches PLAYBACK_START.
\<close>

theorem C7_after_destroy:
  "\<not> u_destroyed s \<longrightarrow>
     destroy (destroy s) = destroy s
   \<and> events (pause (destroy s)) = events (destroy s)
   \<and> reset (destroy s) = (if u_reset s then Inr (destroy s) else Inl TypeError)
   \<and> u_playbackStart (play (destroy s))
   \<and> (\<exists>evs. events (play (destroy s)) = events s @ PLAYER_DESTROY # PLAYBACK_START # evs)"
  using play_emits_start [of "destroy s"] reset_without_playback [of "destroy s"]
  by (auto simp add: destroy_twice pause_events destroy_fields empty_config_def)

theorem C7_after_destroy_witness:
  "destroy (destroy (new_player example_env)) = destroy (new_player example_env)
   \<and> events (pause (destroy (new_player example_env))) = events (destroy (new_player example_env))
   \<and> reset (destroy (new_player example_env)) = Inr (destroy (new_player example_env))
   \<and> u_playbackStart (play (destroy (new_player example_env)))"
proof -
  have h: "\<not> u_destroyed (new_player example_env) \<and> u_reset (new_player example_env)"
    by (simp add: new_player_def u_createReadyPromise_def)
  from C7_after_destroy [of "new_player example_env"] h show ?thesis
    by simp
qed

text \<open>
  The claim as stated fails: a player is constructed with a playable source, plays, and
  is destroyed; \<^verbatim>\<open>play()\<close> then dispatches PLAYBACK_START a second time, and \<^verbatim>\<open>reset()\<close>
  throws.
\<close>

theorem C7_counterexample:
  "constructor example_env (sources_of [(''progressive'', [mp4])]) = Inr mp4_player
   \<and> events (play (destroy (play mp4_player)))
       = [CHANGE_SOURCE_STARTED, SOURCE_SELECTED [mp4], CHANGE_SOURCE_ENDED,
          PLAYBACK_START, PLAYER_DESTROY, PLAYBACK_START]
   \<and> reset (destroy (play mp4_player)) = Inl TypeError"
proof -
  have p: "play mp4_player = mp4_player\<lparr>u_playbackStart := True,
             events := events mp4_player @ [PLAYBACK_START],
             calls := calls mp4_player @ [Collab EngineProvider ''prepareVideoElement'',
                        MiddlewareRun Load [] K_loadPlayer, MiddlewareRun Play [] K_play]\<rparr>"
    by (simp add: play_def Let_def load_def src_def u_prepareVideoElement_def record_event_def
          record_call_def mp4_player_defs)
  have d: "\<not> u_destroyed (play mp4_player) \<and> \<not> u_reset (play mp4_player)
           \<and> u_engine (play mp4_player) = Some (fresh_engine ''html5'')
           \<and> u_middlewares (play mp4_player) = []
           \<and> events (play mp4_player)
               = [CHANGE_SOURCE_STARTED, SOURCE_SELECTED [mp4], CHANGE_SOURCE_ENDED, PLAYBACK_START]"
    by (simp add: p) (simp add: mp4_player_defs)
  have e: "u_engine (destroy (play mp4_player)) = Some (fresh_engine ''html5'')
           \<and> u_middlewares (destroy (play mp4_player)) = []
           \<and> \<not> u_playbackStart (destroy (play mp4_player))"
    using d by (simp add: destroy_fields)
  have ev: "events (play (destroy (play mp4_player))) = events (destroy (play mp4_player)) @ [PLAYBACK_START]"
    using e by (simp add: play_def Let_def load_def src_def u_prepareVideoElement_def record_event_def
          record_call_def fresh_engine_def)
  have r: "reset (destroy (play mp4_player)) = Inl TypeError"
    using d reset_without_playback [of "destroy (play mp4_player)"]
    by (simp add: destroy_fields empty_config_def)
  show ?thesis
    using constructor_mp4 ev r d by (simp add: destroy_fields)
qed

subsection \<open>Reset after destroy\<close>

text \<open>
  The claim as stated fails on the player that is constructed for a progressive source
  and then destroyed: \<^verbatim>\<open>reset()\<close> throws, having run the middleware chain of
  \<^verbatim>\<open>pause()\<close> and reset the four collaborators, and a second \<^verbatim>\<open>reset()\<close> on the state
  that is left runs the chain and resets the four collaborators again before it throws
  as well.
\<close>

theorem C6_counterexample:
  "constructor example_env (sources_of [(''progressive'', [mp4])]) = Inr mp4_player
   \<and> reset (destroy mp4_player) = Inl TypeError
   \<and> calls (reset_services (destroy mp4_player)) = calls (destroy mp4_player) @
       [MiddlewareRun Pause [] K_pause,
        Collab ExternalCaptionsHandler ''reset'', Collab PosterManager ''reset'',
        Collab PluginManager ''reset'', Collab StateManager ''reset'']
   \<and> reset (reset_services (destroy mp4_player)) = Inl TypeError
   \<and> calls (reset_services (reset_services (destroy mp4_player))) = calls (destroy mp4_player) @
       [MiddlewareRun Pause [] K_pause,
        Collab ExternalCaptionsHandler ''reset'', Collab PosterManager ''reset'',
        Collab PluginManager ''reset'', Collab StateManager ''reset'',
        MiddlewareRun Pause [] K_pause,
        Collab ExternalCaptionsHandler ''reset'', Collab PosterManager ''reset'',
        Collab PluginManager ''reset'', Collab StateManager ''reset'']"
proof -
  let ?d = "destroy mp4_player"
  have nd: "\<not> u_destroyed mp4_player"
    by (simp add: mp4_player_defs)
  have d: "\<not> u_reset ?d \<and> playback (u_config ?d) = None
           \<and> u_engine ?d = Some (fresh_engine ''html5'') \<and> u_middlewares ?d = []"
    using destroy_fields [OF nd] by (simp add: mp4_player_def empty_config_def)
       (simp add: new_player_def u_createReadyPromise_def)
  have s: "u_reset (reset_services x) = u_reset x
           \<and> playback (u_config (reset_services x)) = playback (u_config x)
           \<and> u_engine (reset_services x) = u_engine x
           \<and> u_middlewares (reset_services x) = u_middlewares x" for x
    by (simp add: reset_services_def Let_def pause_def record_call_def split: option.splits)
  have c: "u_engine x = Some (fresh_engine ''html5'') \<and> u_middlewares x = [] \<longrightarrow>
           calls (reset_services x) = calls x @
       [MiddlewareRun Pause [] K_pause,
        Collab ExternalCaptionsHandler ''reset'', Collab PosterManager ''reset'',
        Collab PluginManager ''reset'', Collab StateManager ''reset'']" for x
    by (simp add: reset_services_def Let_def pause_def record_call_def)
  have t: "\<not> u_reset x \<and> playback (u_config x) = None \<longrightarrow> reset x = Inl TypeError" for x
    by (simp add: reset_def reset_services_def Let_def andThen_def u_updateTextDisplay_def
          pause_def record_call_def split: option.splits)
  have r1: "reset ?d = Inl TypeError"
    using t [of ?d] d by simp
  have r2: "reset (reset_services ?d) = Inl TypeError"
    using t [of "reset_services ?d"] s [of ?d] d by simp
  have c1: "calls (reset_services ?d) = calls ?d @
       [MiddlewareRun Pause [] K_pause,
        Collab ExternalCaptionsHandler ''reset'', Collab PosterManager ''reset'',
        Collab PluginManager ''reset'', Collab StateManager ''reset'']"
    using c [of ?d] d by simp
  have c2: "calls (reset_services (reset_services ?d)) = calls (reset_services ?d) @
       [MiddlewareRun Pause [] K_pause,
        Collab ExternalCaptionsHandler ''reset'', Collab PosterManager ''reset'',
        Collab PluginManager ''reset'', Collab StateManager ''reset'']"
    using c [of "reset_services ?d"] s [of ?d] d by simp
  show ?thesis
    using constructor_mp4 r1 r2 c1 unfolding c2 c1 by simp
qed

subsection \<open>Claim C4 on a run\<close>

theorem C4_pending_video_track_witness:
  "\<exists>s. dispatchEvent example_env PLAYBACK_ENDED mp4_player = Inr s \<and> u_playbackEnded s
      \<and> (\<exists>s1 s2. selectTrack (video_track 1) s = Inr s1 \<and> calls s1 = calls s
            \<and> u_pendingSelectedVideoTrack s1 = Some (video_track 1)
            \<and> dispatchEvent example_env PLAYING s1 = Inr s2
            \<and> calls s2 = calls s @ [EngineCall ''html5'' (E_selectVideoTrack (video_track 1))]
            \<and> u_pendingSelectedVideoTrack s2 = None
            \<and> (\<exists>s3. dispatchEvent example_env PLAYING s2 = Inr s3 \<and> calls s3 = calls s2
                   \<and> u_pendingSelectedVideoTrack s3 = None))"
proof -
  let ?s = "(record_event PLAYBACK_ENDED mp4_player)\<lparr>u_playbackEnded := True\<rparr>"
  have a: "dispatchEvent example_env PLAYBACK_ENDED mp4_player = Inr ?s"
    by (simp add: dispatchEvent_def u_onPlaybackEnded_def config_def Let_def record_event_def
          mp4_player_defs)
  have h: "u_engine ?s = Some (fresh_engine ''html5'') \<and> u_playbackEnded ?s
           \<and> kind (video_track 1) = VideoTrack \<and> attached ?s"
    by (simp add: record_event_def mp4_player_def video_track_def)
  have i: "eng_id (fresh_engine ''html5'') = ''html5''"
    by (simp add: fresh_engine_def)
  from C4_pending_video_track [of ?s "fresh_engine ''html5''" "video_track 1" example_env] h
  have "\<exists>s1 s2. selectTrack (video_track 1) ?s = Inr s1 \<and> calls s1 = calls ?s
            \<and> u_pendingSelectedVideoTrack s1 = Some (video_track 1)
            \<and> dispatchEvent example_env PLAYING s1 = Inr s2
            \<and> calls s2 = calls ?s @ [EngineCall ''html5'' (E_selectVideoTrack (video_track 1))]
            \<and> u_pendingSelectedVideoTrack s2 = None
            \<and> (\<exists>s3. dispatchEvent example_env PLAYING s2 = Inr s3 \<and> calls s3 = calls s2
                   \<and> u_pendingSelectedVideoTrack s3 = None)"
    unfolding i by blast
  with a h show ?thesis
    by blast
qed

subsection \<open>Default tracks\<close>

lemma text_language_user:
  "st_textLanguage (u_playbackAttributesState s) \<noteq> [] \<Longrightarrow>
     currentOrConfiguredTextLang env s = Inr (st_textLanguage (u_playbackAttributesState s))"
  by (simp add: currentOrConfiguredTextLang_def)

lemma text_language_configured:
  "st_textLanguage (u_playbackAttributesState s) = [] \<Longrightarrow> playback (u_config s) = Some pb \<Longrightarrow>
     currentOrConfiguredTextLang env s
       = Inr (u_getLanguage env (textLanguage pb) (find active (u_getTextTracks s)) s)"
  by (simp add: currentOrConfiguredTextLang_def config_def)

lemma getLanguage_cases:
  "(c \<noteq> AUTO \<longrightarrow> u_getLanguage env c dt s = c)
   \<and> (c = AUTO \<longrightarrow>
        (\<forall>lt. find (\<lambda>t. langComparer env (locale_language env) (language t)) (u_getTextTracks s) = Some lt
              \<longrightarrow> u_getLanguage env c dt s = language lt)
      \<and> (find (\<lambda>t. langComparer env (locale_language env) (language t)) (u_getTextTracks s) = None \<longrightarrow>
           (\<forall>d. dt = Some d \<and> language d \<noteq> OFF \<longrightarrow> u_getLanguage env c dt s = language d)
         \<and> (\<forall>t ts. \<not> (\<exists>d. dt = Some d \<and> language d \<noteq> OFF) \<and> u_getTextTracks s = t # ts
               \<longrightarrow> u_getLanguage env c dt s = language t)))"
  by (auto simp: u_getLanguage_def Let_def split: option.splits list.splits)

lemma setDefaultTrack_nothing: "u_setDefaultTrack env [] lang None s = Inr s"
  by (simp add: u_setDefaultTrack_def)

lemma default_tracks_auto_example:
  assumes tr: "u_tracks s = [(text_track 0 ''en'')\<lparr>active := True\<rparr>, text_track 1 ''fr'', text_track 2 OFF]"
    and st: "st_textLanguage (u_playbackAttributesState s) = []"
    and pb: "playback (u_config s) = Some pb" and au: "textLanguage pb = AUTO"
    and lo: "locale_language env = ''fr''"
    and l1: "langComparer env ''fr'' ''fr''" and l2: "\<not> langComparer env ''fr'' ''en''"
  shows "\<exists>s'. u_setDefaultTracks env s = Inr s'
           \<and> map language (u_tracks s') = [''en'', ''fr'', OFF]
           \<and> map active (u_tracks s') = [False, True, False]"
proof -
  have tt: "u_getTextTracks s = u_tracks s" and at: "u_getAudioTracks s = []"
    by (simp_all add: u_getTextTracks_def u_getAudioTracks_def u_getTracksByType_def tr text_track_def)
  have lang: "currentOrConfiguredTextLang env s = Inr ''fr''"
    by (simp add: text_language_configured [OF st pb] au u_getLanguage_def tt tr text_track_def
          lo l1 l2)
  have alang: "\<exists>a. currentOrConfiguredAudioLang s = Inr a"
    by (simp add: currentOrConfiguredAudioLang_def config_def pb)
  then obtain a where a: "currentOrConfiguredAudioLang s = Inr a" ..
  have sel: "\<exists>s1. selectTrack (text_track 1 ''fr'') s = Inr s1 \<and> u_tracks s1 = u_tracks s"
    by (cases "u_engine s")
       (simp_all add: selectTrack_def text_track_def OFF_def u_resetTextDisplay_def
          u_updateTextDisplay_def pb andThen_def engine_call_def record_call_def)
  then obtain s1 where s1: "selectTrack (text_track 1 ''fr'') s = Inr s1" "u_tracks s1 = u_tracks s"
    by blast
  let ?s2 = "u_markActiveTrack (text_track 1 ''fr'') s1"
  have dtx: "u_setDefaultTrack env (u_getTextTracks s) ''fr''
               (find (\<lambda>t. langComparer env OFF (language t)) (u_getTextTracks s)) s = Inr ?s2"
    by (simp add: u_setDefaultTrack_def tt tr text_track_def l1 l2 andThen_def s1 [unfolded text_track_def])
  have tr2: "u_tracks ?s2 = [text_track 0 ''en'', (text_track 1 ''fr'')\<lparr>active := True\<rparr>, text_track 2 OFF]"
    by (simp add: u_markActiveTrack_def s1 tr text_track_def)
  have au2: "u_getAudioTracks ?s2 = []"
    unfolding u_getAudioTracks_def u_getTracksByType_def tr2 by (simp add: text_track_def)
  have res: "u_setDefaultTracks env s = Inr ?s2"
    by (simp add: u_setDefaultTracks_def Let_def lang a andThen_def dtx au2 at setDefaultTrack_nothing)
  have fin: "map language (u_tracks ?s2) = [''en'', ''fr'', OFF]" "map active (u_tracks ?s2) = [False, True, False]"
    unfolding tr2 by (simp_all add: text_track_def)
  show ?thesis
    by (intro exI conjI) (rule res, rule fin, rule fin)
qed

text \<open>
  Claim C3, as amended. The language resolved for the text tracks is the language of the
  session when one is set, else the configured language; the configured value
  \<^verbatim>\<open>auto\<close> stands for the language of the first track that matches the locale, else of
  the active text track when it is not the OFF track, else of the first text track. With
  tracks en (active), fr and OFF, locale fr, no language of the session and the
  configured language \<^verbatim>\<open>auto\<close>, the resolution leaves fr active and en and OFF inactive.
\<close>

theorem C3_default_text_track:
  "(st_textLanguage (u_playbackAttributesState s) \<noteq> [] \<longrightarrow>
      currentOrConfiguredTextLang env s = Inr (st_textLanguage (u_playbackAttributesState s)))
   \<and> (st_textLanguage (u_playbackAttributesState s) = [] \<and> playback (u_config s) = Some pb \<longrightarrow>
        (textLanguage pb \<noteq> AUTO \<longrightarrow> currentOrConfiguredTextLang env s = Inr (textLanguage pb))
      \<and> (textLanguage pb = AUTO \<longrightarrow>
           (\<forall>lt. find (\<lambda>t. langComparer env (locale_language env) (language t)) (u_getTextTracks s) = Some lt
                 \<longrightarrow> currentOrConfiguredTextLang env s = Inr (language lt))
         \<and> (find (\<lambda>t. langComparer env (locale_language env) (language t)) (u_getTextTracks s) = None \<longrightarrow>
              (\<forall>d. find active (u_getTextTracks s) = Some d \<and> language d \<noteq> OFF
                    \<longrightarrow> currentOrConfiguredTextLang env s = Inr (language d))
            \<and> (\<forall>t ts. \<not> (\<exists>d. find active (u_getTextTracks s) = Some d \<and> language d \<noteq> OFF)
                       \<and> u_getTextTracks s = t # ts
                    \<longrightarrow> currentOrConfiguredTextLang env s = Inr (language t)))))
   \<and> (u_tracks s = [(text_track 0 ''en'')\<lparr>active := True\<rparr>, text_track 1 ''fr'', text_track 2 OFF]
        \<and> st_textLanguage (u_playbackAttributesState s) = []
        \<and> playback (u_config s) = Some pb \<and> textLanguage pb = AUTO
        \<and> locale_language env = ''fr'' \<and> langComparer env ''fr'' ''fr'' \<and> \<not> langComparer env ''fr'' ''en''
      \<longrightarrow> (\<exists>s'. u_setDefaultTracks env s = Inr s'
              \<and> map language (u_tracks s') = [''en'', ''fr'', OFF]
              \<and> map active (u_tracks s') = [False, True, False]))"
proof (intro conjI impI)
  assume "st_textLanguage (u_playbackAttributesState s) \<noteq> []"
  then show "currentOrConfiguredTextLang env s = Inr (st_textLanguage (u_playbackAttributesState s))"
    by (rule text_language_user)
next
  assume h: "st_textLanguage (u_playbackAttributesState s) = [] \<and> playback (u_config s) = Some pb"
  then have e: "currentOrConfiguredTextLang env s
                  = Inr (u_getLanguage env (textLanguage pb) (find active (u_getTextTracks s)) s)"
    by (simp add: text_language_configured)
  note g = getLanguage_cases [of "textLanguage pb" env "find active (u_getTextTracks s)" s]
  {
    assume "textLanguage pb \<noteq> AUTO"
    with g show "currentOrConfiguredTextLang env s = Inr (textLanguage pb)"
      by (simp add: e)
  next
    assume "textLanguage pb = AUTO"
    with g show "\<forall>lt. find (\<lambda>t. langComparer env (locale_language env) (language t)) (u_getTextTracks s) = Some lt
                 \<longrightarrow> currentOrConfiguredTextLang env s = Inr (language lt)"
      by (simp add: e)
  next
    assume "textLanguage pb = AUTO"
      and "find (\<lambda>t. langComparer env (locale_language env) (language t)) (u_getTextTracks s) = None"
    with g show "\<forall>d. find active (u_getTextTracks s) = Some d \<and> language d \<noteq> OFF
                    \<longrightarrow> currentOrConfiguredTextLang env s = Inr (language d)"
      by (simp add: e)
  next
    assume "textLanguage pb = AUTO"
      and "find (\<lambda>t. langComparer env (locale_language env) (language t)) (u_getTextTracks s) = None"
    with g show "\<forall>t ts. \<not> (\<exists>d. find active (u_getTextTracks s) = Some d \<and> language d \<noteq> OFF)
                       \<and> u_getTextTracks s = t # ts
                    \<longrightarrow> currentOrConfiguredTextLang env s = Inr (language t)"
      by (simp add: e)
  }
next
  assume "u_tracks s = [(text_track 0 ''en'')\<lparr>active := True\<rparr>, text_track 1 ''fr'', text_track 2 OFF]
        \<and> st_textLanguage (u_playbackAttributesState s) = []
        \<and> playback (u_config s) = Some pb \<and> textLanguage pb = AUTO
        \<and> locale_language env = ''fr'' \<and> langComparer env ''fr'' ''fr'' \<and> \<not> langComparer env ''fr'' ''en''"
  then show "\<exists>s'. u_setDefaultTracks env s = Inr s'
              \<and> map language (u_tracks s') = [''en'', ''fr'', OFF]
              \<and> map active (u_tracks s') = [False, True, False]"
    using default_tracks_auto_example [of s pb env] by blast
qed

lemma example_langComparer:
  "langComparer example_env ''fr'' ''fr''" "\<not> langComparer example_env ''fr'' ''en''"
  "locale_language example_env = ''fr''"
  by (simp_all add: example_env_def toLowerCase_def lower_char_def)

theorem C3_default_text_track_witness:
  "\<exists>s'. u_setDefaultTracks example_env
          (mp4_player\<lparr>u_config := (u_config mp4_player)\<lparr>playback := Some (example_playback\<lparr>textLanguage := AUTO\<rparr>)\<rparr>,
                      u_tracks := [(text_track 0 ''en'')\<lparr>active := True\<rparr>, text_track 1 ''fr'', text_track 2 OFF]\<rparr>)
          = Inr s'
      \<and> map language (u_tracks s') = [''en'', ''fr'', OFF]
      \<and> map active (u_tracks s') = [False, True, False]"
proof (rule mp [OF C3_default_text_track [THEN conjunct2, THEN conjunct2,
        of _ "example_playback\<lparr>textLanguage := AUTO\<rparr>" example_env]])
  show "u_tracks (mp4_player\<lparr>u_config := (u_config mp4_player)\<lparr>playback := Some (example_playback\<lparr>textLanguage := AUTO\<rparr>)\<rparr>,
                      u_tracks := [(text_track 0 ''en'')\<lparr>active := True\<rparr>, text_track 1 ''fr'', text_track 2 OFF]\<rparr>)
          = [(text_track 0 ''en'')\<lparr>active := True\<rparr>, text_track 1 ''fr'', text_track 2 OFF]
        \<and> st_textLanguage (u_playbackAttributesState
             (mp4_player\<lparr>u_config := (u_config mp4_player)\<lparr>playback := Some (example_playback\<lparr>textLanguage := AUTO\<rparr>)\<rparr>,
                      u_tracks := [(text_track 0 ''en'')\<lparr>active := True\<rparr>, text_track 1 ''fr'', text_track 2 OFF]\<rparr>)) = []
        \<and> playback (u_config (mp4_player\<lparr>u_config := (u_config mp4_player)\<lparr>playback := Some (example_playback\<lparr>textLanguage := AUTO\<rparr>)\<rparr>,
                      u_tracks := [(text_track 0 ''en'')\<lparr>active := True\<rparr>, text_track 1 ''fr'', text_track 2 OFF]\<rparr>))
            = Some (example_playback\<lparr>textLanguage := AUTO\<rparr>)
        \<and> textLanguage (example_playback\<lparr>textLanguage := AUTO\<rparr>) = AUTO
        \<and> locale_language example_env = ''fr'' \<and> langComparer example_env ''fr'' ''fr''
        \<and> \<not> langComparer example_env ''fr'' ''en''"
    by (simp add: example_langComparer) (simp add: mp4_player_def new_player_def u_createReadyPromise_def empty_attributes_def)
qed

text \<open>
  The claim as stated fails: with no configured text language the locale is not
  consulted. No track matches the empty language, so the OFF track is selected: en and
  fr end inactive and OFF active.
\<close>

theorem C3_counterexample:
  "textLanguage example_playback = []
   \<and> (case u_setDefaultTracks example_env
            (mp4_player\<lparr>u_tracks := [(text_track 0 ''en'')\<lparr>active := True\<rparr>, text_track 1 ''fr'', text_track 2 OFF]\<rparr>) of
         Inr s' \<Rightarrow> map (\<lambda>t. (language t, active t)) (u_tracks s')
       | Inl e \<Rightarrow> [])
      = [(''en'', False), (''fr'', False), (''off'', True)]"
  by (simp add: u_setDefaultTracks_def currentOrConfiguredTextLang_def currentOrConfiguredAudioLang_def
        u_setDefaultTrack_def u_getLanguage_def u_getTextTracks_def u_getAudioTracks_def
        u_getTracksByType_def selectTrack_def hideTextTrack_def u_resetTextDisplay_def
        u_updateTextDisplay_def u_markActiveTrack_def config_def andThen_def Let_def
        record_call_def record_event_def engine_call_def text_track_def OFF_def AUTO_def
        toLowerCase_def lower_char_def mp4_player_defs)

subsection \<open>The order of the middlewares\<close>

lemma fold_use_middlewares: "u_middlewares (fold use ms s) = u_middlewares s @ ms"
  by (induction ms arbitrary: s) (simp_all add: use_def record_call_def)

lemma fold_use_engine: "u_engine (fold use ms s) = u_engine s"
  by (induction ms arbitrary: s) (simp_all add: use_def record_call_def)

lemma plugin_step_loads:
  assumes "u_engine s = None" and "plugins (u_config s) \<noteq> None"
    and "map_of (u_plugins s) n = None"
    and "pluginLoad env n c = Inr (Some p)" and "name p = n"
    and "getMiddlewareImpl p = Some (Some m)"
  shows "\<exists>uis' s'. plugin_step env (n, c) (mws, uis, s)
            = Inr (if n = ''bumper'' then mws @ [m] else m # mws, uis', s')
          \<and> u_engine s' = None \<and> plugins (u_config s') \<noteq> None
          \<and> u_plugins s' = AList.update n p (u_plugins s)
          \<and> u_middlewares s' = u_middlewares s"
  using assms
  by (auto simp: plugin_step_def try_load_def set_config_plugin_def record_call_def andThen_def
        Let_def update_conv' split: option.splits)

lemma middleware_of_loaded:
  "pluginLoad env n c = Inr (Some p) \<Longrightarrow> getMiddlewareImpl p = Some (Some m) \<Longrightarrow>
     middleware_of env (n, c) = m"
  by (simp add: middleware_of_def)

lemma forEach_loads:
  assumes "u_engine s = None" and "plugins (u_config s) \<noteq> None" and "distinct (map fst ps)"
    and "\<forall>nc \<in> set ps. map_of (u_plugins s) (fst nc) = None
           \<and> (\<exists>p m. pluginLoad env (fst nc) (snd nc) = Inr (Some p) \<and> name p = fst nc
                  \<and> getMiddlewareImpl p = Some (Some m))"
  shows "\<exists>uis' s'. plugins_forEach env ps (mws, uis, s)
            = Inr (rev (map (middleware_of env) (filter (\<lambda>nc. fst nc \<noteq> ''bumper'') ps)) @ mws
                     @ map (middleware_of env) (filter (\<lambda>nc. fst nc = ''bumper'') ps), uis', s')
          \<and> u_engine s' = None \<and> u_middlewares s' = u_middlewares s"
  using assms
proof (induction ps arbitrary: mws uis s)
  case Nil
  then show ?case by simp
next
  case (Cons nc ps)
  obtain n c where nc: "nc = (n, c)"
    by (cases nc)
  from Cons.prems nc obtain p m where
    p: "pluginLoad env n c = Inr (Some p)" "name p = n" "getMiddlewareImpl p = Some (Some m)"
    and fresh: "map_of (u_plugins s) n = None"
    by auto
  from plugin_step_loads [OF Cons.prems(1) Cons.prems(2) fresh p, of mws uis]
  obtain uis1 s1 where
    step: "plugin_step env (n, c) (mws, uis, s) = Inr (if n = ''bumper'' then mws @ [m] else m # mws, uis1, s1)"
    and s1: "u_engine s1 = None" "plugins (u_config s1) \<noteq> None"
      "u_plugins s1 = AList.update n p (u_plugins s)" "u_middlewares s1 = u_middlewares s"
    by blast
  have d: "distinct (map fst ps)" and notin: "n \<notin> fst ` set ps"
    using Cons.prems(3) nc by auto
  have rest: "\<forall>nc \<in> set ps. map_of (u_plugins s1) (fst nc) = None
           \<and> (\<exists>p m. pluginLoad env (fst nc) (snd nc) = Inr (Some p) \<and> name p = fst nc
                  \<and> getMiddlewareImpl p = Some (Some m))"
  proof
    fix x assume x: "x \<in> set ps"
    then have "fst x \<noteq> n"
      using notin by auto
    then have "map_of (u_plugins s1) (fst x) = map_of (u_plugins s) (fst x)"
      by (simp add: s1 update_conv')
    with Cons.prems(4) x show "map_of (u_plugins s1) (fst x) = None
           \<and> (\<exists>p m. pluginLoad env (fst x) (snd x) = Inr (Some p) \<and> name p = fst x
                  \<and> getMiddlewareImpl p = Some (Some m))"
      by simp
  qed
  from Cons.IH [OF s1(1) s1(2) d rest, of "if n = ''bumper'' then mws @ [m] else m # mws" uis1]
  obtain uis' s' where
    ih: "plugins_forEach env ps (if n = ''bumper'' then mws @ [m] else m # mws, uis1, s1)
           = Inr (rev (map (middleware_of env) (filter (\<lambda>nc. fst nc \<noteq> ''bumper'') ps))
                    @ (if n = ''bumper'' then mws @ [m] else m # mws)
                    @ map (middleware_of env) (filter (\<lambda>nc. fst nc = ''bumper'') ps), uis', s')"
    and s': "u_engine s' = None" "u_middlewares s' = u_middlewares s1"
    by blast
  have m: "middleware_of env (n, c) = m"
    using p by (simp add: middleware_of_loaded)
  show ?case
  proof (cases "n = ''bumper''")
    case True
    with m have b: "middleware_of env (''bumper'', c) = m"
      by simp
    from True step ih show ?thesis
      by (intro exI [of _ uis'] exI [of _ s']) (simp add: nc andThen_def s' s1 b)
  next
    case False
    with step ih show ?thesis
      by (intro exI [of _ uis'] exI [of _ s']) (simp add: nc andThen_def s' s1 m)
  qed
qed

lemma play_runs_chain:
  "u_engine t \<noteq> None \<Longrightarrow> last (calls (play t)) = MiddlewareRun Play (u_middlewares t) K_play"
  by (auto simp: play_def Let_def load_def src_def u_prepareVideoElement_def record_event_def
        record_call_def split: option.splits)

text \<open>
  Claim C2, as amended. In one call of \<^verbatim>\<open>_configureOrLoadPlugins\<close> on a player without
  engine, where every plugin of the object is new and contributes a middleware, the
  middlewares of the plugins not named bumper are added to the chain in the reverse of
  their order in the object, and after them the middleware of the plugin named bumper;
  \<^verbatim>\<open>play()\<close> on a player with an engine runs the chain in that order.
\<close>

theorem C2_middleware_order:
  "u_engine s = None \<and> plugins (u_config s) \<noteq> None \<and> distinct (map fst ps)
   \<and> (\<forall>nc \<in> set ps. map_of (u_plugins s) (fst nc) = None
           \<and> (\<exists>p m. pluginLoad env (fst nc) (snd nc) = Inr (Some p) \<and> name p = fst nc
                  \<and> getMiddlewareImpl p = Some (Some m)))
   \<longrightarrow> (\<exists>s'. u_configureOrLoadPlugins env (Some ps) s = Inr s'
          \<and> u_middlewares s'
              = u_middlewares s
                @ rev (map (middleware_of env) (filter (\<lambda>nc. fst nc \<noteq> ''bumper'') ps))
                @ map (middleware_of env) (filter (\<lambda>nc. fst nc = ''bumper'') ps)
          \<and> (\<forall>t. u_engine t \<noteq> None \<and> u_middlewares t = u_middlewares s'
                 \<longrightarrow> last (calls (play t)) = MiddlewareRun Play (u_middlewares s') K_play))"
proof
  assume h: "u_engine s = None \<and> plugins (u_config s) \<noteq> None \<and> distinct (map fst ps)
   \<and> (\<forall>nc \<in> set ps. map_of (u_plugins s) (fst nc) = None
           \<and> (\<exists>p m. pluginLoad env (fst nc) (snd nc) = Inr (Some p) \<and> name p = fst nc
                  \<and> getMiddlewareImpl p = Some (Some m)))"
  then have h1: "u_engine s = None" and h2: "plugins (u_config s) \<noteq> None"
    and h3: "distinct (map fst ps)"
    and h4: "\<forall>nc \<in> set ps. map_of (u_plugins s) (fst nc) = None
           \<and> (\<exists>p m. pluginLoad env (fst nc) (snd nc) = Inr (Some p) \<and> name p = fst nc
                  \<and> getMiddlewareImpl p = Some (Some m))"
    by simp_all
  from forEach_loads [OF h1 h2 h3 h4, of "[]" "[]"]
  obtain uis' s1 where
    fe: "plugins_forEach env ps ([], [], s)
           = Inr (rev (map (middleware_of env) (filter (\<lambda>nc. fst nc \<noteq> ''bumper'') ps)) @ []
                    @ map (middleware_of env) (filter (\<lambda>nc. fst nc = ''bumper'') ps), uis', s1)"
    and s1: "u_middlewares s1 = u_middlewares s"
    by blast
  let ?ms = "rev (map (middleware_of env) (filter (\<lambda>nc. fst nc \<noteq> ''bumper'') ps))
               @ map (middleware_of env) (filter (\<lambda>nc. fst nc = ''bumper'') ps)"
  let ?s' = "fold use ?ms (s1\<lparr>u_uiComponents := uis'\<rparr>)"
  have r: "u_configureOrLoadPlugins env (Some ps) s = Inr ?s'"
    using fe by (simp add: u_configureOrLoadPlugins_def andThen_def)
  have m: "u_middlewares ?s' = u_middlewares s @ ?ms"
    by (simp add: fold_use_middlewares s1)
  have pl: "\<forall>t. u_engine t \<noteq> None \<and> u_middlewares t = u_middlewares ?s'
                 \<longrightarrow> last (calls (play t)) = MiddlewareRun Play (u_middlewares ?s') K_play"
    using play_runs_chain by metis
  show "\<exists>s'. u_configureOrLoadPlugins env (Some ps) s = Inr s'
          \<and> u_middlewares s' = u_middlewares s @ ?ms
          \<and> (\<forall>t. u_engine t \<noteq> None \<and> u_middlewares t = u_middlewares s'
                 \<longrightarrow> last (calls (play t)) = MiddlewareRun Play (u_middlewares s') K_play)"
    by (intro exI [of _ ?s'] conjI) (rule r, rule m, rule pl)
qed

lemmas plugin_defs = plugin_step_def try_load_def set_config_plugin_def delete_config_plugin_def
  use_def example_plugin_def

theorem C2_middleware_order_witness:
  "\<exists>s'. u_configureOrLoadPlugins example_env (Some [(''A'', []), (''B'', []), (''bumper'', [])])
          (new_player example_env) = Inr s'
      \<and> u_middlewares s' = [''B-middleware'', ''A-middleware'', ''bumper-middleware'']"
proof -
  let ?ps = "[(''A'', []), (''B'', []), (''bumper'', [])] :: (string \<times> plugin_config) list"
  have h: "u_engine (new_player example_env) = None \<and> plugins (u_config (new_player example_env)) \<noteq> None
     \<and> distinct (map fst ?ps)
     \<and> (\<forall>nc \<in> set ?ps. map_of (u_plugins (new_player example_env)) (fst nc) = None
           \<and> (\<exists>p m. pluginLoad example_env (fst nc) (snd nc) = Inr (Some p) \<and> name p = fst nc
                  \<and> getMiddlewareImpl p = Some (Some m)))"
    by (simp add: example_defs example_plugin_def)
  have m: "u_middlewares (new_player example_env) = []"
    "rev (map (middleware_of example_env) (filter (\<lambda>nc. fst nc \<noteq> ''bumper'') ?ps))
       @ map (middleware_of example_env) (filter (\<lambda>nc. fst nc = ''bumper'') ?ps)
     = [''B-middleware'', ''A-middleware'', ''bumper-middleware'']"
    by (simp_all add: example_defs middleware_of_def example_plugin_def)
  from mp [OF C2_middleware_order [of "new_player example_env" ?ps example_env] h]
  obtain s' where "u_configureOrLoadPlugins example_env (Some ?ps) (new_player example_env) = Inr s'"
    and "u_middlewares s' = u_middlewares (new_player example_env)
          @ rev (map (middleware_of example_env) (filter (\<lambda>nc. fst nc \<noteq> ''bumper'') ?ps))
          @ map (middleware_of example_env) (filter (\<lambda>nc. fst nc = ''bumper'') ?ps)"
    by (elim exE conjE)
  then show ?thesis
    unfolding m by (intro exI [of _ s'] conjI) simp_all
qed

text \<open>
  The claim as stated fails. Plugins A, B and bumper, registered in this order by the
  configuration that constructs the player, give the chain B, A, bumper, and \<^verbatim>\<open>play()\<close>
  runs it in that order. And a bumper that is registered by an earlier call of
  \<^verbatim>\<open>configure\<close> stays before the middleware of a later call.
\<close>

theorem C2_counterexample:
  "(case constructor example_env
           ((sources_of [(''progressive'', [mp4])])\<lparr>plugins := Some [(''A'', []), (''B'', []), (''bumper'', [])]\<rparr>) of
      Inr s \<Rightarrow> (u_middlewares s, [last (calls (play s))])
    | Inl e \<Rightarrow> ([], []))
   = ([''B-middleware'', ''A-middleware'', ''bumper-middleware''],
      [MiddlewareRun Play [''B-middleware'', ''A-middleware'', ''bumper-middleware''] K_play])
   \<and> (case andThen (configure example_env (empty_config\<lparr>plugins := Some [(''bumper'', [])]\<rparr>) (new_player example_env))
                 (configure example_env (empty_config\<lparr>plugins := Some [(''A'', [])]\<rparr>)) of
        Inr s \<Rightarrow> u_middlewares s
      | Inl e \<Rightarrow> [])
     = [''bumper-middleware'', ''A-middleware'']"
  by (simp add: model_defs plugin_defs example_defs play_def u_prepareVideoElement_def)

subsection \<open>The selection loop\<close>

lemma record_call_twice:
  "(record_call c s)\<lparr>calls := calls (record_call c s) @ cs\<rparr> = s\<lparr>calls := calls s @ c # cs\<rparr>"
  by (simp add: record_call_def)

lemma select_loop_none:
  "\<forall>p \<in> set ps. \<not> can_play env pb sc d p \<Longrightarrow>
     select_loop env pb (Some sc) d ps s
       = Inr (False, s\<lparr>calls := calls s @ concat (map (asked env sc) ps)\<rparr>)"
proof (induction ps arbitrary: s)
  case Nil
  then show ?case by simp
next
  case (Cons p ps)
  then have no: "\<not> can_play env pb sc d p" and rest: "\<forall>q \<in> set ps. \<not> can_play env pb sc d q"
    by simp_all
  show ?case
  proof (cases "entry_engine env p")
    case None
    then show ?thesis
      using Cons.IH [OF rest, of s] by (simp add: entry_engine_def asked_def)
  next
    case (Some E)
    show ?thesis
    proof (cases "formatSources sc (format_of p)")
      case Nil
      with Some show ?thesis
        using Cons.IH [OF rest, of s] by (simp add: entry_engine_def entry_source_def asked_def)
    next
      case (Cons source more)
      with Some no have "\<not> canPlaySource E source (map_of (preferNative pb) (format_of p)) d"
        by (simp add: can_play_def entry_source_def)
      with Some Cons show ?thesis
        using Cons.IH [OF rest, of "record_call (CanPlaySource (engineId_of p) source) s"]
        by (simp add: entry_engine_def entry_source_def asked_def record_call_twice)
    qed
  qed
qed

lemma select_loop_first:
  assumes "\<forall>q \<in> set pre. \<not> can_play env pb sc d q" and "can_play env pb sc d p"
    and "entry_engine env p = Some E" and "entry_source sc p = Some source"
  shows "select_loop env pb (Some sc) d (pre @ p # post) s
       = Inr (True, (u_loadEngine E source
                       (s\<lparr>calls := calls s @ concat (map (asked env sc) pre)
                                       @ [CanPlaySource (engineId_of p) source]\<rparr>))
                      \<lparr>u_engineType := engineId_of p, u_streamType := format_of p\<rparr>)"
  using assms(1)
proof (induction pre arbitrary: s)
  case Nil
  have "record_call (CanPlaySource (engineId_of p) source) s
          = s\<lparr>calls := calls s @ [CanPlaySource (engineId_of p) source]\<rparr>"
    by (simp add: record_call_def)
  with assms(2-4) show ?case
    by (auto simp: can_play_def entry_engine_def entry_source_def split: list.splits)
next
  case (Cons q pre)
  then have no: "\<not> can_play env pb sc d q" and rest: "\<forall>q \<in> set pre. \<not> can_play env pb sc d q"
    by simp_all
  show ?case
  proof (cases "entry_engine env q")
    case None
    then show ?thesis
      using Cons.IH [OF rest, of s] by (simp add: entry_engine_def asked_def)
  next
    case (Some F)
    show ?thesis
    proof (cases "formatSources sc (format_of q)")
      case Nil
      with Some show ?thesis
        using Cons.IH [OF rest, of s] by (simp add: entry_engine_def entry_source_def asked_def)
    next
      case (Cons x more)
      with Some no have "\<not> canPlaySource F x (map_of (preferNative pb) (format_of q)) d"
        by (simp add: can_play_def entry_source_def)
      with Some Cons show ?thesis
        using Cons.IH [OF rest, of "record_call (CanPlaySource (engineId_of q) x) s"]
        by (simp add: entry_engine_def entry_source_def asked_def record_call_twice)
    qed
  qed
qed

subsection \<open>What configure leaves alone before it selects\<close>

lemma calls_extend_refl: "calls_extend P s s"
  by (simp add: calls_extend_def)

lemma calls_extend_trans: "calls_extend P s t \<Longrightarrow> calls_extend P t u \<Longrightarrow> calls_extend P s u"
  by (auto simp: calls_extend_def)

lemma events_extend_refl: "events_extend P s s"
  by (simp add: events_extend_def)

lemma events_extend_trans: "events_extend P s t \<Longrightarrow> events_extend P t u \<Longrightarrow> events_extend P s u"
  by (auto simp: events_extend_def)

lemma extend_update_config:
  "calls_extend P s (t\<lparr>u_config := x\<rparr>) = calls_extend P s t"
  "events_extend Q s (t\<lparr>u_config := x\<rparr>) = events_extend Q s t"
  by (simp_all add: calls_extend_def events_extend_def)

lemma plugin_step_frame:
  assumes "\<forall>n c err. pluginLoad env n c = Inl err \<longrightarrow> Q (ERROR err)"
    and "plugin_step env nc (m, u, s) = Inr (m', u', s')"
  shows "u_engine s' = u_engine s \<and> u_reset s' = u_reset s \<and> u_engineType s' = u_engineType s
       \<and> u_streamType s' = u_streamType s
       \<and> calls_extend (\<lambda>c. \<not> is_binding_call c) s s'
       \<and> events_extend Q s s'"
proof -
  obtain n c where nc: "nc = (n, c)"
    by (cases nc)
  have load: "u_engine (try_load env n c s) = u_engine s \<and> u_reset (try_load env n c s) = u_reset s
       \<and> u_engineType (try_load env n c s) = u_engineType s
       \<and> u_streamType (try_load env n c s) = u_streamType s
       \<and> u_config (try_load env n c s) = u_config s
       \<and> calls_extend (\<lambda>c. \<not> is_binding_call c) s (try_load env n c s)
       \<and> events_extend Q s (try_load env n c s)"
    using assms(1)
    by (auto simp: try_load_def Let_def record_call_def dispatch_ERROR_def record_event_def
          calls_extend_def events_extend_def is_binding_call_def
          split: sum.splits option.splits)
  show ?thesis
  proof (cases "map_of (u_plugins s) n")
    case (Some p)
    with assms(2) nc show ?thesis
      by (auto simp: plugin_step_def set_config_plugin_def andThen_def record_call_def
            calls_extend_def events_extend_def is_binding_call_def split: option.splits)
  next
    case None
    show ?thesis
    proof (cases "u_engine s = None")
      case True
      with None assms(2) nc
      have "s' = try_load env n c s \<or> (\<exists>x. s' = (try_load env n c s)\<lparr>u_config := x\<rparr>)"
        by (auto simp: plugin_step_def set_config_plugin_def andThen_def Let_def
              split: option.splits)
      with load show ?thesis
        by (auto simp: extend_update_config)
    next
      case False
      with None assms(2) nc show ?thesis
        by (auto simp: plugin_step_def delete_config_plugin_def andThen_def
              calls_extend_def events_extend_def split: option.splits)
    qed
  qed
qed

lemma forEach_frame:
  assumes "\<forall>n c err. pluginLoad env n c = Inl err \<longrightarrow> Q (ERROR err)"
  shows "plugins_forEach env ps (m, u, s) = Inr (m', u', s') \<Longrightarrow>
       u_engine s' = u_engine s \<and> u_reset s' = u_reset s \<and> u_engineType s' = u_engineType s
       \<and> u_streamType s' = u_streamType s
       \<and> calls_extend (\<lambda>c. \<not> is_binding_call c) s s'
       \<and> events_extend Q s s'"
proof (induction ps arbitrary: m u s)
  case Nil
  then show ?case
    by (simp add: calls_extend_refl events_extend_refl)
next
  case (Cons nc ps)
  from Cons.prems obtain m1 u1 s1 where
    step: "plugin_step env nc (m, u, s) = Inr (m1, u1, s1)"
    and rest: "plugins_forEach env ps (m1, u1, s1) = Inr (m', u', s')"
    by (auto simp: andThen_def split: sum.splits)
  from plugin_step_frame [OF assms step] Cons.IH [OF rest] show ?case
    by (auto intro: calls_extend_trans events_extend_trans)
qed

lemma fold_use_frame:
  "u_engine (fold use ms s) = u_engine s \<and> u_reset (fold use ms s) = u_reset s
   \<and> u_engineType (fold use ms s) = u_engineType s \<and> u_streamType (fold use ms s) = u_streamType s
   \<and> calls_extend (\<lambda>c. \<not> is_binding_call c) s (fold use ms s)
   \<and> events (fold use ms s) = events s"
proof (induction ms arbitrary: s)
  case Nil
  then show ?case
    by (simp add: calls_extend_refl)
next
  case (Cons a ms)
  have "calls_extend (\<lambda>c. \<not> is_binding_call c) s (use a s)"
    by (simp add: use_def record_call_def calls_extend_def is_binding_call_def)
  with Cons [of "use a s"] show ?case
    by (auto simp: use_def record_call_def intro: calls_extend_trans)
qed

lemma configureOrLoadPlugins_frame:
  assumes "\<forall>n c err. pluginLoad env n c = Inl err \<longrightarrow> Q (ERROR err)"
    and "u_configureOrLoadPlugins env arg s = Inr s'"
  shows "u_engine s' = u_engine s \<and> u_reset s' = u_reset s \<and> u_engineType s' = u_engineType s
       \<and> u_streamType s' = u_streamType s
       \<and> calls_extend (\<lambda>c. \<not> is_binding_call c) s s'
       \<and> events_extend Q s s'"
proof -
  let ?ps = "case arg of None \<Rightarrow> [] | Some l \<Rightarrow> l"
  from assms(2) obtain m u s1 where
    fe: "plugins_forEach env ?ps ([], [], s) = Inr (m, u, s1)"
    and s': "s' = fold use m (s1\<lparr>u_uiComponents := u\<rparr>)"
    by (auto simp: u_configureOrLoadPlugins_def andThen_def split: sum.splits)
  have mid: "calls_extend (\<lambda>c. \<not> is_binding_call c) s1 (s1\<lparr>u_uiComponents := u\<rparr>)"
    by (simp add: calls_extend_def)
  from forEach_frame [OF assms(1) fe] fold_use_frame [of m "s1\<lparr>u_uiComponents := u\<rparr>"] mid
  show ?thesis
    unfolding s'
    by (auto simp: events_extend_def intro: calls_extend_trans)
qed

lemma reset_frame:
  "Q PLAYER_RESET \<Longrightarrow> reset s = Inr s' \<Longrightarrow>
     u_engine s' = u_engine s \<and> u_reset s'
   \<and> u_engineType s' = (if u_reset s then u_engineType s else [])
   \<and> u_streamType s' = (if u_reset s then u_streamType s else [])
   \<and> calls_extend (\<lambda>c. \<not> is_binding_call c) s s'
   \<and> events_extend Q s s'"
  by (auto simp: reset_def reset_services_def Let_def andThen_def u_updateTextDisplay_def pause_def
        removeAll_listeners_def record_event_def record_call_def engine_call_def
        u_resetStateFlags_def u_createReadyPromise_def calls_extend_def events_extend_def
        is_binding_call_def split: option.splits if_splits)

lemma prepare_frame:
  assumes "\<forall>n c err. pluginLoad env n c = Inl err \<longrightarrow> Q (ERROR err)"
    and "configure_prepare env cfg s = Inr s1"
    and "Q PLAYER_RESET" and "Q CHANGE_SOURCE_STARTED"
  shows "u_engine s1 = u_engine s
       \<and> u_engineType s1 = (if u_reset s then u_engineType s else [])
       \<and> u_streamType s1 = (if u_reset s then u_streamType s else [])
       \<and> calls_extend (\<lambda>c. \<not> is_binding_call c) s s1
       \<and> events_extend Q s s1"
proof -
  from assms(2) obtain a b where
    a: "u_configureOrLoadPlugins env (plugins cfg) s = Inr a"
    and b: "reset (u_maybeCreateAdsController a) = Inr b"
    and s1: "s1 = (record_call (Collab PluginManager ''loadMedia'')
                    (record_event CHANGE_SOURCE_STARTED (record_call (Collab ResizeWatcher ''init'') b)))
                  \<lparr>u_config := mergeDeep env (u_config b) cfg, u_reset := False\<rparr>"
    by (auto simp: configure_prepare_def andThen_def Let_def record_call_def record_event_def
          split: sum.splits)
  let ?a' = "u_maybeCreateAdsController a"
  have ads: "u_engine ?a' = u_engine a \<and> u_reset ?a' = u_reset a \<and> u_engineType ?a' = u_engineType a
       \<and> u_streamType ?a' = u_streamType a \<and> calls ?a' = calls a \<and> events ?a' = events a"
    by (simp add: u_maybeCreateAdsController_def)
  then have ads2: "calls_extend (\<lambda>c. \<not> is_binding_call c) a ?a'"
     "events_extend Q a ?a'"
    by (simp_all add: calls_extend_def events_extend_def)
  have fin: "u_engine s1 = u_engine b \<and> u_engineType s1 = u_engineType b \<and> u_streamType s1 = u_streamType b
       \<and> calls_extend (\<lambda>c. \<not> is_binding_call c) b s1
       \<and> events_extend Q b s1"
    unfolding s1 using assms(4)
    by (simp add: record_call_def record_event_def calls_extend_def events_extend_def
          is_binding_call_def)
  from configureOrLoadPlugins_frame [OF assms(1) a] reset_frame [of Q, OF assms(3) b] ads ads2 fin
  show ?thesis
    by (auto intro: calls_extend_trans events_extend_trans)
qed

subsection \<open>What configure does after it has selected\<close>

lemma same_binding_refl: "same_binding s s"
  by (simp add: same_binding_def calls_extend_refl)

lemma same_binding_trans: "same_binding s t \<Longrightarrow> same_binding t u \<Longrightarrow> same_binding s u"
  by (auto simp: same_binding_def intro: calls_extend_trans)

lemma same_binding_call:
  "\<not> is_binding_call c \<Longrightarrow> same_binding s (record_call c s)"
  by (simp add: same_binding_def record_call_def calls_extend_def)

lemma record_call_config: "u_config (record_call c s) = u_config s"
  by (simp add: record_call_def)

lemma same_binding_engine_call:
  "\<not> is_binding_call (EngineCall (case u_engine s of Some e \<Rightarrow> eng_id e | None \<Rightarrow> []) op) \<Longrightarrow>
     same_binding s (engine_call op s) \<and> u_config (engine_call op s) = u_config s"
  by (cases "u_engine s")
     (simp_all add: engine_call_def same_binding_call same_binding_refl record_call_config)

lemma not_binding_simps:
  "\<not> is_binding_call (EngineCall i (E_load x))" "\<not> is_binding_call (EngineCall i (E_set_playsinline b))"
  "\<not> is_binding_call (EngineCall i (E_set_crossOrigin v))" "\<not> is_binding_call (ReadyThen k)"
  "\<not> is_binding_call (MiddlewareRun a ms k)" "\<not> is_binding_call (Collab co m)"
  "\<not> is_binding_call (CanPlaySource i source)"
  by (simp_all add: is_binding_call_def)

lemma u_load_frame:
  "playback (u_config s) \<noteq> None \<Longrightarrow>
     \<exists>s'. u_load s = Inr s' \<and> same_binding s s' \<and> u_config s' = u_config s"
  by (auto simp: u_load_def same_binding_def engine_call_def record_call_def calls_extend_def
        is_binding_call_def split: option.splits)

lemma u_play_frame:
  assumes "playback (u_config s) \<noteq> None"
  shows "\<exists>s'. u_play s = Inr s' \<and> same_binding s s' \<and> u_config s' = u_config s"
proof -
  from u_load_frame [OF assms] obtain a where
    a: "u_load s = Inr a" "same_binding s a" "u_config a = u_config s"
    by blast
  have b: "same_binding a (a\<lparr>u_shouldLoadAfterAttach := False\<rparr>)"
    by (simp add: same_binding_def calls_extend_def)
  have c: "same_binding x (record_call (ReadyThen K_play) x)" for x
    by (simp add: same_binding_call not_binding_simps)
  show ?thesis
  proof (cases "u_shouldLoadAfterAttach s")
    case True
    then have "u_play s = Inr (record_call (ReadyThen K_play) (a\<lparr>u_shouldLoadAfterAttach := False\<rparr>))"
      by (simp add: u_play_def andThen_def a)
    moreover have "same_binding s (record_call (ReadyThen K_play) (a\<lparr>u_shouldLoadAfterAttach := False\<rparr>))"
      using a(2) b c by (blast intro: same_binding_trans)
    ultimately show ?thesis
      by (simp add: record_call_config a)
  next
    case False
    then have "u_play s = Inr (record_call (ReadyThen K_play) s)"
      by (simp add: u_play_def andThen_def)
    with c [of s] show ?thesis
      by (simp add: record_call_config)
  qed
qed

lemma run_once_frame:
  "playback (u_config s) \<noteq> None \<Longrightarrow>
     \<exists>s'. run_once cbs s = Inr s' \<and> same_binding s s' \<and> u_config s' = u_config s"
proof (induction cbs arbitrary: s)
  case Nil
  then show ?case
    by (simp add: same_binding_refl)
next
  case (Cons cb cbs)
  have "\<exists>a. (case cb of Cb_load \<Rightarrow> u_load s | Cb_play \<Rightarrow> u_play s) = Inr a
           \<and> same_binding s a \<and> u_config a = u_config s"
    using u_load_frame [OF Cons.prems] u_play_frame [OF Cons.prems]
    by (cases cb) simp_all
  then obtain a where a: "(case cb of Cb_load \<Rightarrow> u_load s | Cb_play \<Rightarrow> u_play s) = Inr a"
    "same_binding s a" "u_config a = u_config s"
    by blast
  with Cons.prems have "playback (u_config a) \<noteq> None"
    by simp
  from Cons.IH [OF this] obtain s' where
    "run_once cbs a = Inr s'" "same_binding a s'" "u_config s' = u_config a"
    by blast
  with a show ?case
    by (auto simp: andThen_def intro: same_binding_trans)
qed

lemma dispatch_SOURCE_SELECTED_frame:
  assumes "playback (u_config s) \<noteq> None"
  shows "\<exists>s'. dispatch_SOURCE_SELECTED x s = Inr s' \<and> same_binding s s' \<and> u_config s' = u_config s"
proof -
  let ?a = "(record_event (SOURCE_SELECTED x) s)\<lparr>on_source_selected := []\<rparr>"
  have a: "same_binding s ?a" "u_config ?a = u_config s"
    by (simp_all add: same_binding_def record_event_def calls_extend_def)
  with assms have "playback (u_config ?a) \<noteq> None"
    by simp
  from run_once_frame [OF this, of "on_source_selected (record_event (SOURCE_SELECTED x) s)"]
  obtain s' where "run_once (on_source_selected (record_event (SOURCE_SELECTED x) s)) ?a = Inr s'"
    "same_binding ?a s'" "u_config s' = u_config ?a"
    by blast
  with a show ?thesis
    by (auto simp: dispatch_SOURCE_SELECTED_def Let_def intro: same_binding_trans)
qed

lemma set_muted_frame:
  "same_binding s (set_muted m s) \<and> u_config (set_muted m s) = u_config s"
  by (auto simp: set_muted_def Let_def dispatch_MUTE_CHANGE_def record_event_def same_binding_def
        calls_extend_def split: option.splits)

lemma set_volume_frame:
  "same_binding s (set_volume env v s) \<and> u_config (set_volume env v s) = u_config s"
  by (auto simp: set_volume_def Let_def same_binding_def calls_extend_def split: option.splits)

lemma handlePlaybackOptions_frame:
  "same_binding s (u_handlePlaybackOptions env s)
   \<and> playback (u_config (u_handlePlaybackOptions env s)) \<noteq> None
   \<and> sources (u_config (u_handlePlaybackOptions env s)) = sources (u_config s)"
proof -
  define pb where "pb = (case playback (u_config s) of None \<Rightarrow> empty_playback | Some pb \<Rightarrow> pb)"
  define s0 where "s0 = s\<lparr>u_config := (u_config s)\<lparr>playback := Some pb\<rparr>\<rparr>"
  define s1 where "s1 = (case st_muted (u_playbackAttributesState s0) of
                  Some m \<Rightarrow> set_muted m s0
                | None \<Rightarrow> (case pb_muted pb of Some m \<Rightarrow> set_muted m s0 | None \<Rightarrow> s0))"
  define s2 where "s2 = (case st_volume (u_playbackAttributesState s1) of
                  Some v \<Rightarrow> set_volume env v s1
                | None \<Rightarrow> (case pb_volume pb of Some v \<Rightarrow> set_volume env v s1 | None \<Rightarrow> s1))"
  define s3 where "s3 = (case playsinline pb of Some v \<Rightarrow> set_playsinline v s2 | None \<Rightarrow> s2)"
  define s4 where "s4 = (case crossOrigin pb of Some v \<Rightarrow> set_crossOrigin v s3 | None \<Rightarrow> s3)"
  define s5 where "s5 = (case playbackRates pb of
           Some rates \<Rightarrow> s4\<lparr>u_playbackRates := Some (validPlaybackRates rates)\<rparr>
         | None \<Rightarrow> s4)"
  have r: "u_handlePlaybackOptions env s = s5"
    unfolding u_handlePlaybackOptions_def Let_def s5_def s4_def s3_def s2_def s1_def s0_def pb_def
    by (rule refl)
  have 0: "same_binding s s0 \<and> u_config s0 = (u_config s)\<lparr>playback := Some pb\<rparr>"
    by (simp add: s0_def same_binding_def calls_extend_def)
  have 1: "same_binding s0 s1 \<and> u_config s1 = u_config s0"
    by (simp add: s1_def set_muted_frame same_binding_refl split: option.splits)
  have 2: "same_binding s1 s2 \<and> u_config s2 = u_config s1"
    by (simp add: s2_def set_volume_frame same_binding_refl split: option.splits)
  have 3: "same_binding s2 s3 \<and> u_config s3 = u_config s2"
    by (simp add: s3_def set_playsinline_def same_binding_engine_call not_binding_simps
          same_binding_refl split: option.splits)
  have 4: "same_binding s3 s4 \<and> u_config s4 = u_config s3"
    by (simp add: s4_def set_crossOrigin_def same_binding_engine_call not_binding_simps
          same_binding_refl split: option.splits)
  have 5: "same_binding s4 s5 \<and> u_config s5 = u_config s4"
    by (simp add: s5_def same_binding_def calls_extend_def split: option.splits)
  have "same_binding s s5"
    using 0 1 2 3 4 5 by (blast intro: same_binding_trans)
  moreover have "u_config s5 = (u_config s)\<lparr>playback := Some pb\<rparr>"
    using 0 1 2 3 4 5 by simp
  ultimately show ?thesis
    by (simp add: r)
qed

lemma load_frame: "same_binding s (load s) \<and> u_config (load s) = u_config s"
  by (simp add: load_def same_binding_call not_binding_simps same_binding_refl record_call_config)

lemma configure_selected_frame:
  assumes "playback (u_config s) \<noteq> None" and "sources (u_config s) \<noteq> None"
  shows "\<exists>s'. configure_selected env s = Inr s' \<and> same_binding s s'"
proof -
  from assms(2) obtain sc where sc: "sources (u_config s) = Some sc"
    by auto
  from dispatch_SOURCE_SELECTED_frame [OF assms(1), of "formatSources sc (u_streamType s)"]
  obtain s1 where s1: "dispatch_SOURCE_SELECTED (formatSources sc (u_streamType s)) s = Inr s1"
    "same_binding s s1" "u_config s1 = u_config s"
    by blast
  have "\<exists>s2. u_attachMedia s1 = Inr s2 \<and> same_binding s1 s2 \<and> u_config s2 = u_config s1"
    using assms(1) s1(3)
    by (auto simp: u_attachMedia_def config_def same_binding_def calls_extend_def split: option.splits)
  then obtain s2 where s2: "u_attachMedia s1 = Inr s2" "same_binding s1 s2" "u_config s2 = u_config s1"
    by blast
  let ?s3 = "u_handlePlaybackOptions env s2"
  let ?s4 = "record_call (Collab PosterManager ''setSrc'') ?s3"
  note h = handlePlaybackOptions_frame [of s2 env]
  have s4: "same_binding ?s3 ?s4" "u_config ?s4 = u_config ?s3"
    by (simp_all add: same_binding_call not_binding_simps record_call_config)
  with h obtain pb where pb: "playback (u_config ?s4) = Some pb"
    by auto
  let ?s5 = "if preload pb = ''auto'' \<and> \<not> autoplay pb then load ?s4 else ?s4"
  have s5: "u_handlePreload ?s4 = Inr ?s5" "same_binding ?s4 ?s5" "u_config ?s5 = u_config ?s4"
    using pb load_frame [of ?s4] by (simp_all add: u_handlePreload_def same_binding_refl)
  let ?s6 = "if autoplay pb then record_call (Collab Capabilities ''getCapabilities'') ?s5
             else record_call (Collab PosterManager ''show'') ?s5"
  have s6: "u_handleAutoPlay ?s5 = Inr ?s6" "same_binding ?s5 ?s6"
    using pb s5(3) by (simp_all add: u_handleAutoPlay_def same_binding_call not_binding_simps)
  let ?s7 = "record_event CHANGE_SOURCE_ENDED ?s6"
  have s7: "same_binding ?s6 ?s7"
    by (simp add: same_binding_def record_event_def calls_extend_def)
  have r: "configure_selected env s = Inr ?s7"
    by (simp add: configure_selected_def sc s1 s2 andThen_def Let_def s5(1) s6(1))
  have "same_binding s ?s7"
    using s1(2) s2(2) h s4(1) s5(2) s6(2) s7 by (blast intro: same_binding_trans)
  with r show ?thesis
    by blast
qed

subsection \<open>Engine selection in configure\<close>

lemma asked_not_binding: "list_all (\<lambda>c. \<not> is_binding_call c) (concat (map (asked env sc) ps))"
  by (induction ps) (auto simp: asked_def is_binding_call_def split: option.splits)

lemma filter_none: "list_all (\<lambda>c. \<not> P c) cs \<Longrightarrow> filter P cs = []"
  by (induction cs) simp_all

lemma selectEngine_none:
  assumes "playback (u_config s1) = Some pb" and "sources (u_config s1) = Some sc"
    and "\<forall>p \<in> set (streamPriority pb). \<not> can_play env pb sc (drm (u_config s1)) p"
  shows "u_selectEngineByPriority env s1
           = Inr (False, s1\<lparr>calls := calls s1 @ concat (map (asked env sc) (streamPriority pb))\<rparr>)"
  using select_loop_none [OF assms(3), of s1]
  by (simp add: u_selectEngineByPriority_def assms(1,2))

lemma selectEngine_first:
  assumes "playback (u_config s1) = Some pb" and "sources (u_config s1) = Some sc"
    and "streamPriority pb = pre @ p # post"
    and "\<forall>q \<in> set pre. \<not> can_play env pb sc (drm (u_config s1)) q"
    and "can_play env pb sc (drm (u_config s1)) p"
  shows "\<exists>E source. entry_engine env p = Some E \<and> entry_source sc p = Some source
           \<and> u_selectEngineByPriority env s1
               = Inr (True, (u_loadEngine E source
                               (s1\<lparr>calls := calls s1 @ concat (map (asked env sc) pre)
                                                 @ [CanPlaySource (engineId_of p) source]\<rparr>))
                              \<lparr>u_engineType := engineId_of p, u_streamType := format_of p\<rparr>)"
proof -
  from assms(5) obtain E source where
    e: "entry_engine env p = Some E" "entry_source sc p = Some source"
    by (auto simp: can_play_def split: option.splits)
  from select_loop_first [OF assms(4) assms(5) e, of post s1] e show ?thesis
    by (simp add: u_selectEngineByPriority_def assms(1,2,3))
qed

text \<open>
  Claim C1, as amended. Let \<^verbatim>\<open>configure\<close> be called with sources, let it reach the
  selection in the state \<open>s1\<close>, whose configuration has its playback and sources
  sections, and let no plugin fail to load with the code of the missing engine.

  If no entry of the priority list can play, \<^verbatim>\<open>configure\<close> returns; the events it has
  dispatched end with the critical error NO_ENGINE_FOUND_TO_PLAY_THE_SOURCE, which is the
  only event of that code among them; it has called nothing that creates, restores or
  destroys an engine; and the engine field is what it was: no engine is bound if none
  was, and an engine bound before stays bound, with engine type and stream type cleared
  by the reset.

  If some entry can play, the selection takes the first such entry of the list: it loads
  the engine of that entry with the first source of its format, sets engine type and
  stream type from the entry, and has asked \<^verbatim>\<open>canPlaySource\<close> for the entries up to that
  one and for none behind it.
\<close>

theorem C1_engine_selection:
  "u_hasSources (sources cfg) \<and> configure_prepare env cfg s = Inr s1
   \<and> playback (u_config s1) = Some pb \<and> sources (u_config s1) = Some sc
   \<and> (\<forall>n c err. pluginLoad env n c = Inl err \<longrightarrow> err_code err \<noteq> NO_ENGINE_FOUND_TO_PLAY_THE_SOURCE)
   \<longrightarrow>
     ((\<forall>p \<in> set (streamPriority pb). \<not> can_play env pb sc (drm (u_config s1)) p) \<longrightarrow>
        (\<exists>s' evs cs. configure env cfg s = Inr s'
           \<and> events s' = events s @ evs @ [ERROR no_engine_found]
           \<and> list_all (\<lambda>e. \<not> is_no_engine_error e) evs
           \<and> length (filter is_no_engine_error (evs @ [ERROR no_engine_found])) = 1
           \<and> calls s' = calls s @ cs \<and> list_all (\<lambda>c. \<not> is_binding_call c) cs
           \<and> calls s' = calls s1 @ concat (map (asked env sc) (streamPriority pb))
           \<and> u_engine s' = u_engine s
           \<and> u_engineType s' = (if u_reset s then u_engineType s else [])
           \<and> u_streamType s' = (if u_reset s then u_streamType s else [])))
   \<and> (\<forall>pre p post. streamPriority pb = pre @ p # post
           \<and> (\<forall>q \<in> set pre. \<not> can_play env pb sc (drm (u_config s1)) q)
           \<and> can_play env pb sc (drm (u_config s1)) p \<longrightarrow>
        (\<exists>E source. entry_engine env p = Some E \<and> entry_source sc p = Some source
           \<and> u_selectEngineByPriority env s1
               = Inr (True, (u_loadEngine E source
                               (s1\<lparr>calls := calls s1 @ concat (map (asked env sc) pre)
                                                 @ [CanPlaySource (engineId_of p) source]\<rparr>))
                              \<lparr>u_engineType := engineId_of p, u_streamType := format_of p\<rparr>)))"
proof (intro impI conjI allI)
  assume h: "u_hasSources (sources cfg) \<and> configure_prepare env cfg s = Inr s1
   \<and> playback (u_config s1) = Some pb \<and> sources (u_config s1) = Some sc
   \<and> (\<forall>n c err. pluginLoad env n c = Inl err \<longrightarrow> err_code err \<noteq> NO_ENGINE_FOUND_TO_PLAY_THE_SOURCE)"
  assume none: "\<forall>p \<in> set (streamPriority pb). \<not> can_play env pb sc (drm (u_config s1)) p"
  from h have hs: "u_hasSources (sources cfg)" and prep: "configure_prepare env cfg s = Inr s1"
    and pb: "playback (u_config s1) = Some pb" and sc: "sources (u_config s1) = Some sc"
    and pl: "\<forall>n c err. pluginLoad env n c = Inl err \<longrightarrow> \<not> is_no_engine_error (ERROR err)"
    by (simp_all add: is_no_engine_error_def)
  let ?asked = "concat (map (asked env sc) (streamPriority pb))"
  let ?s2 = "s1\<lparr>calls := calls s1 @ ?asked\<rparr>"
  let ?s' = "dispatch_ERROR no_engine_found ?s2"
  have sel: "u_selectEngineByPriority env s1 = Inr (False, ?s2)"
    by (rule selectEngine_none [OF pb sc none])
  have r: "configure env cfg s = Inr ?s'"
    by (simp add: configure_def hs prep sel andThen_def)
  have q: "\<not> is_no_engine_error PLAYER_RESET" "\<not> is_no_engine_error CHANGE_SOURCE_STARTED"
    by (simp_all add: is_no_engine_error_def)
  from prepare_frame [of env "\<lambda>e. \<not> is_no_engine_error e", OF pl prep q]
  have f: "u_engine s1 = u_engine s"
    "u_engineType s1 = (if u_reset s then u_engineType s else [])"
    "u_streamType s1 = (if u_reset s then u_streamType s else [])"
    and "calls_extend (\<lambda>c. \<not> is_binding_call c) s s1"
    and "events_extend (\<lambda>e. \<not> is_no_engine_error e) s s1"
    by simp_all
  then obtain cs evs where
    cs: "calls s1 = calls s @ cs" "list_all (\<lambda>c. \<not> is_binding_call c) cs"
    and evs: "events s1 = events s @ evs" "list_all (\<lambda>e. \<not> is_no_engine_error e) evs"
    by (auto simp: calls_extend_def events_extend_def)
  have ev': "events ?s' = events s @ evs @ [ERROR no_engine_found]"
    by (simp add: dispatch_ERROR_def Let_def record_event_def evs)
  have ca': "calls ?s' = calls s1 @ ?asked"
    by (simp add: dispatch_ERROR_def Let_def record_event_def)
  have fields: "u_engine ?s' = u_engine s1" "u_engineType ?s' = u_engineType s1"
    "u_streamType ?s' = u_streamType s1"
    by (simp_all add: dispatch_ERROR_def Let_def record_event_def)
  have one: "length (filter is_no_engine_error (evs @ [ERROR no_engine_found])) = 1"
    using filter_none [of is_no_engine_error evs] evs(2)
    by (simp add: is_no_engine_error_def no_engine_found_def)
  have ca2: "calls ?s' = calls s @ cs @ ?asked"
    using ca' by (simp add: cs(1))
  have nb: "list_all (\<lambda>c. \<not> is_binding_call c) (cs @ ?asked)"
    using cs(2) asked_not_binding [of env sc "streamPriority pb"] by simp
  show "\<exists>s' evs cs. configure env cfg s = Inr s'
           \<and> events s' = events s @ evs @ [ERROR no_engine_found]
           \<and> list_all (\<lambda>e. \<not> is_no_engine_error e) evs
           \<and> length (filter is_no_engine_error (evs @ [ERROR no_engine_found])) = 1
           \<and> calls s' = calls s @ cs \<and> list_all (\<lambda>c. \<not> is_binding_call c) cs
           \<and> calls s' = calls s1 @ concat (map (asked env sc) (streamPriority pb))
           \<and> u_engine s' = u_engine s
           \<and> u_engineType s' = (if u_reset s then u_engineType s else [])
           \<and> u_streamType s' = (if u_reset s then u_streamType s else [])"
    apply (rule exI [of _ ?s'], rule exI [of _ evs], rule exI [of _ "cs @ ?asked"])
    apply (intro conjI)
             apply (rule r)
            apply (rule ev')
           apply (rule evs(2))
          apply (rule one)
         apply (rule ca2)
        apply (rule nb)
       apply (rule ca')
      apply (simp add: fields f)
     apply (simp add: fields f)
    apply (simp add: fields f)
    done
next
  fix pre p post
  assume h: "u_hasSources (sources cfg) \<and> configure_prepare env cfg s = Inr s1
   \<and> playback (u_config s1) = Some pb \<and> sources (u_config s1) = Some sc
   \<and> (\<forall>n c err. pluginLoad env n c = Inl err \<longrightarrow> err_code err \<noteq> NO_ENGINE_FOUND_TO_PLAY_THE_SOURCE)"
  assume f: "streamPriority pb = pre @ p # post
           \<and> (\<forall>q \<in> set pre. \<not> can_play env pb sc (drm (u_config s1)) q)
           \<and> can_play env pb sc (drm (u_config s1)) p"
  from h f show "\<exists>E source. entry_engine env p = Some E \<and> entry_source sc p = Some source
           \<and> u_selectEngineByPriority env s1
               = Inr (True, (u_loadEngine E source
                               (s1\<lparr>calls := calls s1 @ concat (map (asked env sc) pre)
                                                 @ [CanPlaySource (engineId_of p) source]\<rparr>))
                              \<lparr>u_engineType := engineId_of p, u_streamType := format_of p\<rparr>)"
    using selectEngine_first [of s1 pb sc pre p post env] by simp
qed

lemmas selection_defs = can_play_def entry_engine_def entry_source_def asked_def formatSources_def
  engineId_of_def format_of_def html5_def flash_def toLowerCase_examples

lemma prepare_dash:
  "configure_prepare example_env (sources_of [(''dash'', [mpd])]) (new_player example_env)
     = Inr ((new_player example_env)\<lparr>
         u_config := example_config\<lparr>sources := Some (empty_sources\<lparr>by_format := [(''dash'', [mpd])],
                                                                      src_type := Some VOD\<rparr>)\<rparr>,
         u_reset := False, events := [CHANGE_SOURCE_STARTED],
         calls := [Collab EngineProvider ''prepareVideoElement'', Collab Capabilities ''runCapabilities'',
                   Collab ResizeWatcher ''init'', Collab PluginManager ''loadMedia'']\<rparr>)"
  by (simp add: model_defs example_defs)

lemma prepare_mp4:
  "configure_prepare example_env (sources_of [(''progressive'', [mp4])]) (new_player example_env)
     = Inr ((new_player example_env)\<lparr>
         u_config := example_config\<lparr>sources := Some (empty_sources\<lparr>by_format := [(''progressive'', [mp4])],
                                                                      src_type := Some VOD\<rparr>)\<rparr>,
         u_reset := False, events := [CHANGE_SOURCE_STARTED],
         calls := [Collab EngineProvider ''prepareVideoElement'', Collab Capabilities ''runCapabilities'',
                   Collab ResizeWatcher ''init'', Collab PluginManager ''loadMedia'']\<rparr>)"
  by (simp add: model_defs example_defs)

theorem C1_engine_selection_witness:
  "(\<exists>s' evs. configure example_env (sources_of [(''dash'', [mpd])]) (new_player example_env) = Inr s'
        \<and> events s' = evs @ [ERROR no_engine_found]
        \<and> length (filter is_no_engine_error (events s')) = 1
        \<and> u_engine s' = None \<and> u_engineType s' = [])
   \<and> (\<exists>s1 s2. configure_prepare example_env (sources_of [(''progressive'', [mp4])]) (new_player example_env) = Inr s1
        \<and> u_selectEngineByPriority example_env s1 = Inr (True, s2)
        \<and> u_engineType s2 = ''html5'' \<and> u_streamType s2 = ''progressive''
        \<and> u_engine s2 = Some (fresh_engine ''html5'')
        \<and> calls s2 = calls s1 @ [CanPlaySource ''html5'' mp4, CreateEngine ''html5'' mp4])"
proof
  let ?cfg = "sources_of [(''dash'', [mpd])]"
  let ?sc = "empty_sources\<lparr>by_format := [(''dash'', [mpd])], src_type := Some VOD\<rparr>"
  let ?s1 = "(new_player example_env)\<lparr>
         u_config := example_config\<lparr>sources := Some ?sc\<rparr>,
         u_reset := False, events := [CHANGE_SOURCE_STARTED],
         calls := [Collab EngineProvider ''prepareVideoElement'', Collab Capabilities ''runCapabilities'',
                   Collab ResizeWatcher ''init'', Collab PluginManager ''loadMedia'']\<rparr>"
  have h: "u_hasSources (sources ?cfg) \<and> configure_prepare example_env ?cfg (new_player example_env) = Inr ?s1
     \<and> playback (u_config ?s1) = Some example_playback \<and> sources (u_config ?s1) = Some ?sc
     \<and> (\<forall>n c err. pluginLoad example_env n c = Inl err \<longrightarrow> err_code err \<noteq> NO_ENGINE_FOUND_TO_PLAY_THE_SOURCE)"
    by (simp add: prepare_dash)
       (simp add: u_hasSources_def StreamType_def formatSources_def sources_of_def empty_config_def
          example_config_def example_env_def)
  have none: "\<forall>p \<in> set (streamPriority example_playback).
                \<not> can_play example_env example_playback ?sc (drm (u_config ?s1)) p"
    by (simp add: example_playback_def empty_playback_def selection_defs example_env_def)
  from mp [OF mp [OF C1_engine_selection [of ?cfg example_env "new_player example_env" ?s1
                      example_playback ?sc], THEN conjunct1] none, OF h]
  obtain s' evs where
    r: "configure example_env ?cfg (new_player example_env) = Inr s'"
    and ev: "events s' = events (new_player example_env) @ evs @ [ERROR no_engine_found]"
    and one: "length (filter is_no_engine_error (evs @ [ERROR no_engine_found])) = 1"
    and en: "u_engine s' = u_engine (new_player example_env)"
    and ty: "u_engineType s' = (if u_reset (new_player example_env)
                                 then u_engineType (new_player example_env) else [])"
    by (elim exE conjE)
  have np: "events (new_player example_env) = []" "u_engine (new_player example_env) = None"
    "u_engineType (new_player example_env) = []"
    by (simp_all add: new_player_def u_createReadyPromise_def)
  show "\<exists>s' evs. configure example_env ?cfg (new_player example_env) = Inr s'
        \<and> events s' = evs @ [ERROR no_engine_found]
        \<and> length (filter is_no_engine_error (events s')) = 1
        \<and> u_engine s' = None \<and> u_engineType s' = []"
    using r ev one en ty by (intro exI [of _ s'] exI [of _ evs]) (simp add: np)
next
  let ?cfg = "sources_of [(''progressive'', [mp4])]"
  let ?sc = "empty_sources\<lparr>by_format := [(''progressive'', [mp4])], src_type := Some VOD\<rparr>"
  let ?s1 = "(new_player example_env)\<lparr>
         u_config := example_config\<lparr>sources := Some ?sc\<rparr>,
         u_reset := False, events := [CHANGE_SOURCE_STARTED],
         calls := [Collab EngineProvider ''prepareVideoElement'', Collab Capabilities ''runCapabilities'',
                   Collab ResizeWatcher ''init'', Collab PluginManager ''loadMedia'']\<rparr>"
  let ?pre = "[\<lparr>pr_engine = Some ''Flash'', pr_format = Some ''hls''\<rparr>,
               \<lparr>pr_engine = Some ''html5'', pr_format = Some ''hls''\<rparr>]"
  let ?p = "\<lparr>pr_engine = Some ''html5'', pr_format = Some ''progressive''\<rparr>"
  have h: "u_hasSources (sources ?cfg) \<and> configure_prepare example_env ?cfg (new_player example_env) = Inr ?s1
     \<and> playback (u_config ?s1) = Some example_playback \<and> sources (u_config ?s1) = Some ?sc
     \<and> (\<forall>n c err. pluginLoad example_env n c = Inl err \<longrightarrow> err_code err \<noteq> NO_ENGINE_FOUND_TO_PLAY_THE_SOURCE)"
    by (simp add: prepare_mp4)
       (simp add: u_hasSources_def StreamType_def formatSources_def sources_of_def empty_config_def
          example_config_def example_env_def)
  have first: "streamPriority example_playback = ?pre @ ?p # []
       \<and> (\<forall>q \<in> set ?pre. \<not> can_play example_env example_playback ?sc (drm (u_config ?s1)) q)
       \<and> can_play example_env example_playback ?sc (drm (u_config ?s1)) ?p"
    by (simp add: example_playback_def empty_playback_def selection_defs example_env_def mp4_def)
  have ent: "entry_engine example_env ?p = Some html5" "entry_source ?sc ?p = Some mp4"
    "asked example_env ?sc \<lparr>pr_engine = Some ''Flash'', pr_format = Some ''hls''\<rparr> = []"
    "asked example_env ?sc \<lparr>pr_engine = Some ''html5'', pr_format = Some ''hls''\<rparr> = []"
    "engineId_of ?p = ''html5''"
    "format_of ?p = ''progressive''"
    by (simp_all add: selection_defs example_env_def)
  from mp [OF mp [OF C1_engine_selection [of ?cfg example_env "new_player example_env" ?s1
                      example_playback ?sc], THEN conjunct2, THEN spec, THEN spec, THEN spec], OF h first]
  have sel: "u_selectEngineByPriority example_env ?s1
               = Inr (True, (u_loadEngine html5 mp4
                               (?s1\<lparr>calls := calls ?s1 @ [] @ [CanPlaySource ''html5'' mp4]\<rparr>))
                              \<lparr>u_engineType := ''html5'', u_streamType := ''progressive''\<rparr>)"
    by (simp add: ent)
  let ?s2 = "(u_loadEngine html5 mp4 (?s1\<lparr>calls := calls ?s1 @ [] @ [CanPlaySource ''html5'' mp4]\<rparr>))
                \<lparr>u_engineType := ''html5'', u_streamType := ''progressive''\<rparr>"
  have fields: "u_engineType ?s2 = ''html5''" "u_streamType ?s2 = ''progressive''"
    "u_engine ?s2 = Some (fresh_engine ''html5'')"
    "calls ?s2 = calls ?s1 @ [CanPlaySource ''html5'' mp4, CreateEngine ''html5'' mp4]"
    by (simp_all add: u_loadEngine_def u_createEngine_def record_call_def new_player_def
          u_createReadyPromise_def html5_def)
  show "\<exists>s1 s2. configure_prepare example_env ?cfg (new_player example_env) = Inr s1
        \<and> u_selectEngineByPriority example_env s1 = Inr (True, s2)
        \<and> u_engineType s2 = ''html5'' \<and> u_streamType s2 = ''progressive''
        \<and> u_engine s2 = Some (fresh_engine ''html5'')
        \<and> calls s2 = calls s1 @ [CanPlaySource ''html5'' mp4, CreateEngine ''html5'' mp4]"
    by (intro exI [of _ ?s1] exI [of _ ?s2] conjI)
       (rule prepare_mp4, rule sel, (rule fields)+)
qed

text \<open>
  The claim as stated fails where an engine is bound already: the player constructed for
  a progressive source is configured with a source that no engine can play; the error is
  dispatched and engine type and stream type are empty, but the html5 engine of the
  first source is still the player's engine.
\<close>

theorem C1_counterexample:
  "(case configure example_env (sources_of [(''dash'', [mpd])]) mp4_player of
      Inr s \<Rightarrow> (u_engine s, u_engineType s, u_streamType s, [last (events s)])
    | Inl e \<Rightarrow> (None, [], [], []))
   = (Some (fresh_engine ''html5''), [], [], [ERROR no_engine_found])"
  by (simp add: model_defs mp4_player_defs selection_defs mpd_def)

subsection \<open>Swapping and restoring the engine\<close>

lemma loadEngine_bound:
  assumes "u_engine x = Some e"
  shows "calls (u_loadEngine E source x)
           = calls x @ (if eng_id e = id_static E then [EngineCall (eng_id e) (E_restore source)]
                        else [EngineCall (eng_id e) E_destroy, CreateEngine (id_static E) source])
       \<and> u_engine (u_loadEngine E source x)
           = (if eng_id e = id_static E then Some e else Some (createEngine E source))
       \<and> u_config (u_loadEngine E source x) = u_config x"
  using assms
  by (simp add: u_loadEngine_def u_createEngine_def engine_call_def record_call_def)

text \<open>
  Claim C8. Let \<^verbatim>\<open>configure\<close> be called with sources on a player whose engine is
  \<open>e\<close>, and let the first entry of the priority list that can play designate the engine
  class \<open>E\<close> and the source \<open>source\<close>. Then \<^verbatim>\<open>configure\<close> returns, and of the calls it
  makes the ones that destroy, restore or create an engine are: when the identifier of
  \<open>E\<close> differs from the one of \<open>e\<close>, one \<^verbatim>\<open>destroy\<close> of \<open>e\<close> followed by the creation of
  the engine of \<open>E\<close> for \<open>source\<close>, which is then the player's engine; when the
  identifiers are equal, one \<^verbatim>\<open>restore\<close> of \<open>e\<close> with \<open>source\<close> and nothing else.
\<close>

theorem C8_engine_swap:
  "u_hasSources (sources cfg) \<and> configure_prepare env cfg s = Inr s1
   \<and> playback (u_config s1) = Some pb \<and> sources (u_config s1) = Some sc
   \<and> streamPriority pb = pre @ p # post
   \<and> (\<forall>q \<in> set pre. \<not> can_play env pb sc (drm (u_config s1)) q)
   \<and> can_play env pb sc (drm (u_config s1)) p
   \<and> entry_engine env p = Some E \<and> entry_source sc p = Some source
   \<and> u_engine s = Some e
   \<longrightarrow> (\<exists>s' cs. configure env cfg s = Inr s' \<and> calls s' = calls s @ cs
          \<and> filter is_binding_call cs
              = (if eng_id e = id_static E then [EngineCall (eng_id e) (E_restore source)]
                 else [EngineCall (eng_id e) E_destroy, CreateEngine (id_static E) source])
          \<and> map_option eng_id (u_engine s')
              = Some (if eng_id e = id_static E then eng_id e else eng_id (createEngine E source))
          \<and> u_engineType s' = engineId_of p \<and> u_streamType s' = format_of p)"
proof
  assume h: "u_hasSources (sources cfg) \<and> configure_prepare env cfg s = Inr s1
   \<and> playback (u_config s1) = Some pb \<and> sources (u_config s1) = Some sc
   \<and> streamPriority pb = pre @ p # post
   \<and> (\<forall>q \<in> set pre. \<not> can_play env pb sc (drm (u_config s1)) q)
   \<and> can_play env pb sc (drm (u_config s1)) p
   \<and> entry_engine env p = Some E \<and> entry_source sc p = Some source
   \<and> u_engine s = Some e"
  then have hs: "u_hasSources (sources cfg)" and prep: "configure_prepare env cfg s = Inr s1"
    and pb: "playback (u_config s1) = Some pb" and sc: "sources (u_config s1) = Some sc"
    and pri: "streamPriority pb = pre @ p # post"
    and no: "\<forall>q \<in> set pre. \<not> can_play env pb sc (drm (u_config s1)) q"
    and yes: "can_play env pb sc (drm (u_config s1)) p"
    and ee: "entry_engine env p = Some E" and es: "entry_source sc p = Some source"
    and e: "u_engine s = Some e"
    by simp_all
  define bc where "bc = (if eng_id e = id_static E then [EngineCall (eng_id e) (E_restore source)]
                 else [EngineCall (eng_id e) E_destroy, CreateEngine (id_static E) source])"
  have pf: "u_engine s1 = u_engine s \<and> calls_extend (\<lambda>c. \<not> is_binding_call c) s s1"
    using prepare_frame [of env "\<lambda>e. True" cfg s s1] prep by simp
  then obtain c1 where c1: "calls s1 = calls s @ c1" "list_all (\<lambda>c. \<not> is_binding_call c) c1"
    by (auto simp: calls_extend_def)
  let ?a = "concat (map (asked env sc) pre) @ [CanPlaySource (engineId_of p) source]"
  let ?x = "s1\<lparr>calls := calls s1 @ ?a\<rparr>"
  let ?s2 = "(u_loadEngine E source ?x)\<lparr>u_engineType := engineId_of p, u_streamType := format_of p\<rparr>"
  have a: "list_all (\<lambda>c. \<not> is_binding_call c) ?a"
    using asked_not_binding [of env sc pre] by (simp add: is_binding_call_def)
  have sel: "u_selectEngineByPriority env s1 = Inr (True, ?s2)"
    using select_loop_first [OF no yes ee es, of post s1]
    by (simp add: u_selectEngineByPriority_def pb sc pri)
  have x: "u_engine ?x = Some e"
    using pf e by simp
  note le = loadEngine_bound [OF x, of E source, folded bc_def]
  have s2: "calls ?s2 = calls s1 @ ?a @ bc"
    "map_option eng_id (u_engine ?s2)
       = Some (if eng_id e = id_static E then eng_id e else eng_id (createEngine E source))"
    "u_config ?s2 = u_config s1" "u_engineType ?s2 = engineId_of p" "u_streamType ?s2 = format_of p"
    using le by simp_all
  have "playback (u_config ?s2) \<noteq> None" "sources (u_config ?s2) \<noteq> None"
    using s2(3) pb sc by simp_all
  from configure_selected_frame [OF this, of env] obtain s' where
    tail: "configure_selected env ?s2 = Inr s'" and sb: "same_binding ?s2 s'"
    by blast
  from sb obtain c3 where c3: "calls s' = calls ?s2 @ c3" "list_all (\<lambda>c. \<not> is_binding_call c) c3"
    and keep: "map_option eng_id (u_engine s') = map_option eng_id (u_engine ?s2)"
      "u_engineType s' = u_engineType ?s2" "u_streamType s' = u_streamType ?s2"
    by (auto simp: same_binding_def calls_extend_def)
  have r: "configure env cfg s = Inr s'"
    by (simp add: configure_def hs prep sel andThen_def tail)
  have ca0: "calls s' = calls s1 @ ?a @ bc @ c3"
    by (simp only: c3(1) s2(1) append_assoc)
  have ca: "calls s' = calls s @ (c1 @ ?a @ bc @ c3)"
    unfolding ca0 c1(1) by simp
  have bcf: "filter is_binding_call bc = bc"
    by (simp add: bc_def is_binding_call_def)
  have fi: "filter is_binding_call (c1 @ ?a @ bc @ c3) = bc"
    using filter_none [OF c1(2)] filter_none [OF asked_not_binding [of env sc pre]]
      filter_none [OF c3(2)] bcf
    by (simp add: not_binding_simps)
  show "\<exists>s' cs. configure env cfg s = Inr s' \<and> calls s' = calls s @ cs
          \<and> filter is_binding_call cs
              = (if eng_id e = id_static E then [EngineCall (eng_id e) (E_restore source)]
                 else [EngineCall (eng_id e) E_destroy, CreateEngine (id_static E) source])
          \<and> map_option eng_id (u_engine s')
              = Some (if eng_id e = id_static E then eng_id e else eng_id (createEngine E source))
          \<and> u_engineType s' = engineId_of p \<and> u_streamType s' = format_of p"
    apply (rule exI [of _ s'], rule exI [of _ "c1 @ ?a @ bc @ c3"])
    apply (intro conjI)
         apply (rule r)
        apply (rule ca)
       apply (simp only: fi, simp only: bc_def)
      apply (simp only: keep s2)
     apply (simp only: keep s2)
    apply (simp only: keep s2)
    done
qed

lemma prepare_again:
  "\<exists>s1. configure_prepare example_env (sources_of fs) mp4_player = Inr s1
        \<and> u_config s1 = example_config\<lparr>sources := Some (empty_sources\<lparr>by_format := fs,
                                                                      src_type := Some VOD\<rparr>)\<rparr>"
  by (simp add: model_defs mp4_player_defs)

theorem C8_engine_swap_witness:
  "(\<exists>s' cs. configure example_env (sources_of [(''hls'', [m3u8])]) mp4_player = Inr s'
        \<and> calls s' = calls mp4_player @ cs
        \<and> filter is_binding_call cs = [EngineCall ''html5'' E_destroy, CreateEngine ''flash'' m3u8]
        \<and> map_option eng_id (u_engine s') = Some ''flash'' \<and> u_engineType s' = ''flash''
        \<and> u_streamType s' = ''hls'')
   \<and> (\<exists>s' cs. configure example_env (sources_of [(''progressive'', [mp4])]) mp4_player = Inr s'
        \<and> calls s' = calls mp4_player @ cs
        \<and> filter is_binding_call cs = [EngineCall ''html5'' (E_restore mp4)]
        \<and> map_option eng_id (u_engine s') = Some ''html5'' \<and> u_engineType s' = ''html5''
        \<and> u_streamType s' = ''progressive'')"
proof
  let ?cfg = "sources_of [(''hls'', [m3u8])]"
  let ?sc = "empty_sources\<lparr>by_format := [(''hls'', [m3u8])], src_type := Some VOD\<rparr>"
  let ?p = "\<lparr>pr_engine = Some ''Flash'', pr_format = Some ''hls''\<rparr>"
  let ?post = "[\<lparr>pr_engine = Some ''html5'', pr_format = Some ''hls''\<rparr>,
                \<lparr>pr_engine = Some ''html5'', pr_format = Some ''progressive''\<rparr>]"
  from prepare_again [of "[(''hls'', [m3u8])]"] obtain s1 where
    s1: "configure_prepare example_env ?cfg mp4_player = Inr s1"
    and c: "u_config s1 = example_config\<lparr>sources := Some ?sc\<rparr>"
    by blast
  have h: "u_hasSources (sources ?cfg) \<and> configure_prepare example_env ?cfg mp4_player = Inr s1
     \<and> playback (u_config s1) = Some example_playback \<and> sources (u_config s1) = Some ?sc
     \<and> streamPriority example_playback = [] @ ?p # ?post
     \<and> (\<forall>q \<in> set []. \<not> can_play example_env example_playback ?sc (drm (u_config s1)) q)
     \<and> can_play example_env example_playback ?sc (drm (u_config s1)) ?p
     \<and> entry_engine example_env ?p = Some flash \<and> entry_source ?sc ?p = Some m3u8
     \<and> u_engine mp4_player = Some (fresh_engine ''html5'')"
    by (simp add: s1 c)
       (simp add: u_hasSources_def StreamType_def sources_of_def empty_config_def example_config_def
          example_playback_def empty_playback_def selection_defs example_env_def m3u8_def
          mp4_player_def)
  have i: "eng_id (fresh_engine ''html5'') \<noteq> id_static flash" "id_static flash = ''flash''"
    "eng_id (fresh_engine ''html5'') = ''html5''" "eng_id (createEngine flash m3u8) = ''flash''"
    "engineId_of ?p = ''flash''" "format_of ?p = ''hls''"
    by (simp_all add: fresh_engine_def flash_def engineId_of_def format_of_def
          toLowerCase_examples)
  from mp [OF C8_engine_swap [of ?cfg example_env mp4_player s1 example_playback ?sc "[]" ?p ?post
                 flash m3u8 "fresh_engine ''html5''"] h]
  show "\<exists>s' cs. configure example_env ?cfg mp4_player = Inr s'
        \<and> calls s' = calls mp4_player @ cs
        \<and> filter is_binding_call cs = [EngineCall ''html5'' E_destroy, CreateEngine ''flash'' m3u8]
        \<and> map_option eng_id (u_engine s') = Some ''flash'' \<and> u_engineType s' = ''flash''
        \<and> u_streamType s' = ''hls''"
    by (simp add: i)
next
  let ?cfg = "sources_of [(''progressive'', [mp4])]"
  let ?sc = "empty_sources\<lparr>by_format := [(''progressive'', [mp4])], src_type := Some VOD\<rparr>"
  let ?pre = "[\<lparr>pr_engine = Some ''Flash'', pr_format = Some ''hls''\<rparr>,
               \<lparr>pr_engine = Some ''html5'', pr_format = Some ''hls''\<rparr>]"
  let ?p = "\<lparr>pr_engine = Some ''html5'', pr_format = Some ''progressive''\<rparr>"
  from prepare_again [of "[(''progressive'', [mp4])]"] obtain s1 where
    s1: "configure_prepare example_env ?cfg mp4_player = Inr s1"
    and c: "u_config s1 = example_config\<lparr>sources := Some ?sc\<rparr>"
    by blast
  have h: "u_hasSources (sources ?cfg) \<and> configure_prepare example_env ?cfg mp4_player = Inr s1
     \<and> playback (u_config s1) = Some example_playback \<and> sources (u_config s1) = Some ?sc
     \<and> streamPriority example_playback = ?pre @ ?p # []
     \<and> (\<forall>q \<in> set ?pre. \<not> can_play example_env example_playback ?sc (drm (u_config s1)) q)
     \<and> can_play example_env example_playback ?sc (drm (u_config s1)) ?p
     \<and> entry_engine example_env ?p = Some html5 \<and> entry_source ?sc ?p = Some mp4
     \<and> u_engine mp4_player = Some (fresh_engine ''html5'')"
    by (simp add: s1 c)
       (simp add: u_hasSources_def StreamType_def sources_of_def empty_config_def example_config_def
          example_playback_def empty_playback_def selection_defs example_env_def mp4_def
          mp4_player_def)
  have i: "eng_id (fresh_engine ''html5'') = id_static html5" "id_static html5 = ''html5''"
    "engineId_of ?p = ''html5''" "format_of ?p = ''progressive''"
    by (simp_all add: fresh_engine_def html5_def engineId_of_def format_of_def
          toLowerCase_examples)
  from mp [OF C8_engine_swap [of ?cfg example_env mp4_player s1 example_playback ?sc ?pre ?p "[]"
                 html5 mp4 "fresh_engine ''html5''"] h]
  show "\<exists>s' cs. configure example_env ?cfg mp4_player = Inr s'
        \<and> calls s' = calls mp4_player @ cs
        \<and> filter is_binding_call cs = [EngineCall ''html5'' (E_restore mp4)]
        \<and> map_option eng_id (u_engine s') = Some ''html5'' \<and> u_engineType s' = ''html5''
        \<and> u_streamType s' = ''progressive''"
    by (simp add: i)
qed

end
